theory Spec2Isabelle
  imports Main
begin

section \<open>Tree nodes\<close>

text \<open>
  A node of the document tree is a Python dict with the keys \<open>type\<close>, \<open>name\<close> and,
  for directories, \<open>children\<close>. The key \<open>children\<close> may be absent, which is
  \<open>None\<close> here; \<open>server.py\<close> reads it with \<open>found.get("children", [])\<close>.
\<close>

datatype tree_node = Node (ntype: string) (name: string) (children: "tree_node list option")

text \<open>\<open>found.get("children", [])\<close>\<close>

definition get_children_key :: "tree_node \<Rightarrow> tree_node list" where
  "get_children_key found = (case children found of None \<Rightarrow> [] | Some cs \<Rightarrow> cs)"

section \<open>The subtree resolver\<close>

text \<open>
  \<open>path.split("/")\<close>: Python's \<open>str.split\<close> with a separator cuts at every
  occurrence and keeps the empty pieces, so the result is never the empty list.
\<close>

fun split :: "char \<Rightarrow> string \<Rightarrow> string list" where
  "split sep [] = [[]]"
| "split sep (c # cs) =
     (if c = sep then [] # split sep cs
      else (case split sep cs of
              [] \<Rightarrow> [[c]]
            | w # ws \<Rightarrow> (c # w) # ws))"

text \<open>\<open>parts = [p for p in path.split("/") if p]\<close>\<close>

definition parts_of :: "string \<Rightarrow> string list" where
  "parts_of path = filter (\<lambda>p. p \<noteq> []) (split CHR ''/'' path)"

text \<open>
  The inner loop of \<open>get_children\<close>: the first node of \<open>nodes\<close> whose type is
  \<open>"directory"\<close> and whose name is \<open>part\<close>; \<open>None\<close> when the loop ends without
  a \<open>break\<close>.
\<close>

fun find_dir :: "tree_node list \<Rightarrow> string \<Rightarrow> tree_node option" where
  "find_dir [] part = None"
| "find_dir (node # nodes) part =
     (if ntype node = ''directory'' \<and> name node = part then Some node
      else find_dir nodes part)"

text \<open>
  The outer loop \<open>for part in parts\<close>, with \<open>return None\<close> when no directory is
  found and \<open>return nodes or []\<close> after the last part.
\<close>

fun walk :: "tree_node list \<Rightarrow> string list \<Rightarrow> tree_node list option" where
  "walk nodes [] = Some (if nodes = [] then [] else nodes)"
| "walk nodes (part # parts) =
     (case find_dir nodes part of
        None \<Rightarrow> None
      | Some found \<Rightarrow> walk (get_children_key found) parts)"

definition get_children :: "tree_node list \<Rightarrow> string \<Rightarrow> tree_node list option" where
  "get_children tree path =
     (let parts = parts_of path
      in if parts = [] then Some tree else walk tree parts)"

section \<open>Addressing, as the specification words it\<close>



section \<open>Requests, responses and failures\<close>

text \<open>
  What a Python exception is to \<open>App.dispatch\<close>: an instance of werkzeug's
  \<open>NotFound\<close> (with its description), any other \<open>HTTPException\<close> (with its status
  code and body), or an exception that carries no HTTP status (with its class name).
\<close>

datatype exn = NotFound string | HTTPException nat string | Exception string

text \<open>
  The part of a request the application reads: the path the URL map matches and the
  query arguments (\<open>request.args\<close>).
\<close>

record request =
  req_path :: string
  req_args :: "(string \<times> string) list"

text \<open>
  A \<open>Response\<close> as \<open>server.py\<close> builds it. The status is 200 unless \<open>status=\<close>
  is given; \<open>mimetype\<close> is \<open>None\<close> when the argument is not passed.
\<close>

record response =
  status :: nat
  mimetype :: "string option"
  body :: string
  headers :: "(string \<times> string) list"

text \<open>
  What \<open>dispatch\<close> returns: a \<open>Response\<close>, or the caught \<open>HTTPException\<close>
  object itself (\<open>return e\<close>).
\<close>

datatype reply = Resp response | Exc exn

text \<open>The keyword arguments of the two kinds of template: \<open>content=\<close>, or \<open>tree=, path=, root=\<close>.\<close>

datatype template_args = Content string | Listing "tree_node list" string string

section \<open>The collaborators\<close>

text \<open>
  Every call the application makes to code outside \<open>server.py\<close> is recorded, in order.
  \<open>GetContent f None\<close> is \<open>get_content(f)\<close>, \<open>GetContent f (Some True)\<close> is
  \<open>get_content(f, raw=True)\<close>.
\<close>

datatype call =
    SharedData
  | BindToEnviron
  | Match
  | IsFile string
  | GetContent string "bool option"
  | GetTree
  | Refresh
  | Search "string option"
  | GetTemplate string
  | Render string template_args
  | Parse string
  | Dumps

text \<open>
  The world an action runs in: the state of the content provider (\<open>self.state\<close>, an
  \<open>MdViewerState\<close>) and the calls made so far.
\<close>

record 'p world =
  provider :: 'p
  calls :: "call list"

text \<open>
  The code outside \<open>server.py\<close>, as parameters. The methods of the content provider read
  and may change its state; the URL map, the template environment, the markdown parser
  and \<open>json.dumps\<close> are functions of their arguments. Each of them may raise. A
  template is known by its name. A match of the URL map binds no variable or the one
  variable \<open>filename\<close>. The type \<open>'r\<close> is the type of search results.
  \<open>shared_data\<close> is the lookup of werkzeug's \<open>SharedDataMiddleware\<close> with the export
  \<open>/static\<close>: the response that serves the file when the request names an exported
  file that exists, \<open>None\<close> otherwise.
\<close>

record ('p, 'r) collab =
  shared_data :: "request \<Rightarrow> exn + response option"
  bind_to_environ :: "request \<Rightarrow> exn + unit"
  url_match :: "request \<Rightarrow> exn + (string \<times> string option)"
  is_file :: "string \<Rightarrow> 'p \<Rightarrow> (exn + bool) \<times> 'p"
  get_content :: "string \<Rightarrow> bool option \<Rightarrow> 'p \<Rightarrow> (exn + string) \<times> 'p"
  get_tree :: "'p \<Rightarrow> (exn + tree_node list) \<times> 'p"
  refresh :: "'p \<Rightarrow> (exn + unit) \<times> 'p"
  search :: "string option \<Rightarrow> 'p \<Rightarrow> (exn + 'r) \<times> 'p"
  get_template :: "string \<Rightarrow> exn + unit"
  render :: "string \<Rightarrow> template_args \<Rightarrow> exn + string"
  parse :: "string \<Rightarrow> exn + string"
  dumps_tree :: "tree_node list \<Rightarrow> exn + string"
  dumps :: "'r \<Rightarrow> exn + string"

section \<open>Actions: state, failure and the record of calls\<close>

type_synonym ('p, 'a) action = "'p world \<Rightarrow> (exn + 'a) \<times> 'p world"

definition return :: "'a \<Rightarrow> ('p, 'a) action" where
  "return x = (\<lambda>w. (Inr x, w))"

definition raise :: "exn \<Rightarrow> ('p, 'a) action" where
  "raise e = (\<lambda>w. (Inl e, w))"

text \<open>Sequencing: a failure of the first action skips the rest.\<close>

definition and_then :: "('p, 'a) action \<Rightarrow> ('a \<Rightarrow> ('p, 'b) action) \<Rightarrow> ('p, 'b) action" where
  "and_then m f = (\<lambda>w. case m w of
                         (Inl e, w') \<Rightarrow> (Inl e, w')
                       | (Inr x, w') \<Rightarrow> f x w')"

text \<open>\<open>try: m except ... : h\<close>\<close>

definition try_except :: "('p, 'a) action \<Rightarrow> (exn \<Rightarrow> ('p, 'a) action) \<Rightarrow> ('p, 'a) action" where
  "try_except m h = (\<lambda>w. case m w of
                          (Inl e, w') \<Rightarrow> h e w'
                        | (Inr x, w') \<Rightarrow> (Inr x, w'))"

text \<open>A call of a method of the content provider.\<close>

definition state_call :: "call \<Rightarrow> ('p \<Rightarrow> (exn + 'a) \<times> 'p) \<Rightarrow> ('p, 'a) action" where
  "state_call c f = (\<lambda>w. case f (provider w) of
                          (r, p') \<Rightarrow> (r, \<lparr>provider = p', calls = calls w @ [c]\<rparr>))"

text \<open>A call of a function that does not touch the content provider.\<close>

definition pure_call :: "call \<Rightarrow> exn + 'a \<Rightarrow> ('p, 'a) action" where
  "pure_call c r = (\<lambda>w. (r, \<lparr>provider = provider w, calls = calls w @ [c]\<rparr>))"

text \<open>The calls an action adds when it runs in \<open>w\<close>.\<close>

definition new_calls :: "('p, 'a) action \<Rightarrow> 'p world \<Rightarrow> call list" where
  "new_calls m w = drop (length (calls w)) (calls (snd (m w)))"

section \<open>The URL map\<close>

definition url_map :: "(string \<times> string) list" where
  "url_map =
     [(''/'', ''home''),
      (''/static/<path:filename>'', ''static''),
      (''/v/'', ''index''),
      (''/v/<path:filename>'', ''view''),
      (''/m/'', ''index_mdplain''),
      (''/m/<path:filename>'', ''mdplain''),
      (''/t/<path:filename>'', ''mdtext''),
      (''/api/tree'', ''dirtree''),
      (''/api/search'', ''search'')]"

section \<open>The application\<close>

subsection \<open>Render helpers\<close>

definition render_markdown :: "('p, 'r) collab \<Rightarrow> string \<Rightarrow> string \<Rightarrow> ('p, reply) action" where
  "render_markdown c template content =
     and_then (pure_call (GetTemplate template) (get_template c template)) (\<lambda>_.
     and_then (pure_call (Render template (Content content))
                  (render c template (Content content))) (\<lambda>html.
     return (Resp \<lparr>status = 200, mimetype = Some ''text/html'', body = html, headers = []\<rparr>)))"

definition render_tree ::
  "('p, 'r) collab \<Rightarrow> string \<Rightarrow> string \<Rightarrow> string \<Rightarrow> ('p, reply) action" where
  "render_tree c template prefix filename =
     and_then (state_call GetTree (get_tree c)) (\<lambda>t.
       case get_children t filename of
         None \<Rightarrow>
           return (Resp \<lparr>status = 404, mimetype = Some ''text/plain'',
                         body = ''Not found'', headers = []\<rparr>)
       | Some tree \<Rightarrow>
           and_then (pure_call (GetTemplate ''tree.md'') (get_template c ''tree.md'')) (\<lambda>_.
           and_then (pure_call (Render ''tree.md'' (Listing tree prefix (''/'' @ filename)))
                        (render c ''tree.md'' (Listing tree prefix (''/'' @ filename)))) (\<lambda>tree_md.
           and_then (pure_call (Parse tree_md) (parse c tree_md)) (\<lambda>parsed.
           render_markdown c template parsed))))"

definition render_file :: "('p, 'r) collab \<Rightarrow> string \<Rightarrow> string \<Rightarrow> ('p, reply) action" where
  "render_file c template filename =
     and_then (state_call (GetContent filename None) (get_content c filename None)) (\<lambda>md_html.
     render_markdown c template md_html)"

definition handle_common ::
  "('p, 'r) collab \<Rightarrow> string \<Rightarrow> string \<Rightarrow> string \<Rightarrow> ('p, reply) action" where
  "handle_common c filename template prefix =
     and_then (state_call (IsFile filename) (is_file c filename)) (\<lambda>b.
       if b then render_file c template filename
       else render_tree c template prefix filename)"

subsection \<open>Handlers\<close>

definition on_home :: "('p, 'r) collab \<Rightarrow> request \<Rightarrow> ('p, reply) action" where
  "on_home c request =
     return (Resp \<lparr>status = 302, mimetype = None, body = [],
                   headers = [(''Location'', ''/v'')]\<rparr>)"

definition on_index :: "('p, 'r) collab \<Rightarrow> request \<Rightarrow> ('p, reply) action" where
  "on_index c request =
     and_then (state_call Refresh (refresh c)) (\<lambda>_.
     and_then (state_call GetTree (get_tree c)) (\<lambda>tree.
     and_then (pure_call (GetTemplate ''tree.md'') (get_template c ''tree.md'')) (\<lambda>_.
     and_then (pure_call (Render ''tree.md'' (Listing tree ''v'' ''/''))
                  (render c ''tree.md'' (Listing tree ''v'' ''/''))) (\<lambda>tree_md.
     and_then (pure_call (GetTemplate ''viewer.html'') (get_template c ''viewer.html'')) (\<lambda>_.
     and_then (pure_call (Parse tree_md) (parse c tree_md)) (\<lambda>parsed.
     and_then (pure_call (Render ''viewer.html'' (Content parsed))
                  (render c ''viewer.html'' (Content parsed))) (\<lambda>html.
     return (Resp \<lparr>status = 200, mimetype = Some ''text/html'', body = html,
                   headers = []\<rparr>))))))))"

definition on_index_mdplain :: "('p, 'r) collab \<Rightarrow> request \<Rightarrow> ('p, reply) action" where
  "on_index_mdplain c request =
     and_then (state_call Refresh (refresh c)) (\<lambda>_.
     and_then (state_call GetTree (get_tree c)) (\<lambda>tree.
     and_then (pure_call (GetTemplate ''tree.md'') (get_template c ''tree.md'')) (\<lambda>_.
     and_then (pure_call (Render ''tree.md'' (Listing tree ''m'' ''/''))
                  (render c ''tree.md'' (Listing tree ''m'' ''/''))) (\<lambda>tree_md.
     and_then (pure_call (GetTemplate ''plain.html'') (get_template c ''plain.html'')) (\<lambda>_.
     and_then (pure_call (Parse tree_md) (parse c tree_md)) (\<lambda>parsed.
     and_then (pure_call (Render ''plain.html'' (Content parsed))
                  (render c ''plain.html'' (Content parsed))) (\<lambda>html.
     return (Resp \<lparr>status = 200, mimetype = Some ''text/html'', body = html,
                   headers = []\<rparr>))))))))"

definition on_dirtree :: "('p, 'r) collab \<Rightarrow> request \<Rightarrow> ('p, reply) action" where
  "on_dirtree c request =
     and_then (state_call GetTree (get_tree c)) (\<lambda>t.
     and_then (pure_call Dumps (dumps_tree c t)) (\<lambda>js.
     return (Resp \<lparr>status = 200, mimetype = Some ''application/json'', body = js,
                   headers = []\<rparr>)))"

definition on_search :: "('p, 'r) collab \<Rightarrow> request \<Rightarrow> ('p, reply) action" where
  "on_search c request =
     (let query = map_of (req_args request) ''query''
      in and_then (state_call (Search query) (search c query)) (\<lambda>result.
         and_then (pure_call Dumps (dumps c result)) (\<lambda>js.
         return (Resp \<lparr>status = 200, mimetype = Some ''application/json'', body = js,
                       headers = []\<rparr>))))"

definition on_mdplain :: "('p, 'r) collab \<Rightarrow> request \<Rightarrow> string \<Rightarrow> ('p, reply) action" where
  "on_mdplain c request filename = handle_common c filename ''plain.html'' ''m''"

definition on_view :: "('p, 'r) collab \<Rightarrow> request \<Rightarrow> string \<Rightarrow> ('p, reply) action" where
  "on_view c request filename = handle_common c filename ''viewer.html'' ''v''"

definition on_mdtext :: "('p, 'r) collab \<Rightarrow> request \<Rightarrow> string \<Rightarrow> ('p, reply) action" where
  "on_mdtext c request filename =
     and_then (state_call (GetContent filename (Some True))
                  (get_content c filename (Some True))) (\<lambda>raw_text.
     return (Resp \<lparr>status = 200, mimetype = Some ''text/plain'', body = raw_text,
                   headers = []\<rparr>))"

subsection \<open>Dispatcher\<close>

text \<open>
  A handler takes the request alone, or the request and \<open>filename\<close>.
\<close>

datatype 'p handler =
    Plain "request \<Rightarrow> ('p, reply) action"
  | Named "request \<Rightarrow> string \<Rightarrow> ('p, reply) action"

text \<open>
  \<open>getattr(self, f"on_{endpoint}")\<close>: the methods of \<open>App\<close> whose names start with
  \<open>on_\<close>. There is no \<open>on_static\<close>.
\<close>

definition getattr_on :: "('p, 'r) collab \<Rightarrow> string \<Rightarrow> 'p handler option" where
  "getattr_on c endpoint =
     map_of
       [(''home'', Plain (on_home c)),
        (''index'', Plain (on_index c)),
        (''index_mdplain'', Plain (on_index_mdplain c)),
        (''dirtree'', Plain (on_dirtree c)),
        (''search'', Plain (on_search c)),
        (''mdplain'', Named (on_mdplain c)),
        (''view'', Named (on_view c)),
        (''mdtext'', Named (on_mdtext c))]
       endpoint"

text \<open>
  \<open>handler(request, **values)\<close>: a call whose keyword arguments do not fit the handler's
  parameters raises \<open>TypeError\<close>.
\<close>

definition apply_handler :: "'p handler \<Rightarrow> request \<Rightarrow> string option \<Rightarrow> ('p, reply) action" where
  "apply_handler h request values =
     (case (h, values) of
        (Plain f, None) \<Rightarrow> f request
      | (Named f, Some filename) \<Rightarrow> f request filename
      | _ \<Rightarrow> raise (Exception ''TypeError''))"

text \<open>The two lines of the \<open>try\<close> block after the match.\<close>

definition handle ::
  "('p, 'r) collab \<Rightarrow> string \<Rightarrow> request \<Rightarrow> string option \<Rightarrow> ('p, reply) action" where
  "handle c endpoint request values =
     (case getattr_on c endpoint of
        None \<Rightarrow> raise (Exception ''AttributeError'')
      | Some handler \<Rightarrow> apply_handler handler request values)"

definition dispatch :: "('p, 'r) collab \<Rightarrow> request \<Rightarrow> ('p, reply) action" where
  "dispatch c request =
     and_then (pure_call BindToEnviron (bind_to_environ c request)) (\<lambda>adapter.
     try_except
       (and_then (pure_call Match (url_match c request)) (\<lambda>(endpoint, values).
        handle c endpoint request values))
       (\<lambda>e. case e of
               NotFound d \<Rightarrow>
                 return (Resp \<lparr>status = 404, mimetype = Some ''text/plain'',
                               body = ''Not found'', headers = []\<rparr>)
             | HTTPException code b \<Rightarrow> return (Exc e)
             | Exception n \<Rightarrow> raise e))"

subsection \<open>WSGI plumbing\<close>

text \<open>
  The method \<open>wsgi_app\<close> builds the request, dispatches it and sends the reply; it has no
  \<open>try\<close> of its own.
\<close>

definition wsgi_app :: "('p, 'r) collab \<Rightarrow> request \<Rightarrow> ('p, reply) action" where
  "wsgi_app c environ = and_then (dispatch c environ) (\<lambda>response. return response)"

text \<open>
  \<open>SharedDataMiddleware(app, {"/static": ...})\<close>: an exported file that exists is served
  without calling \<open>app\<close>; every other request is passed on to \<open>app\<close>.
\<close>

definition shared_data_middleware ::
  "('p, 'r) collab \<Rightarrow> (request \<Rightarrow> ('p, reply) action) \<Rightarrow> request \<Rightarrow> ('p, reply) action" where
  "shared_data_middleware c app environ =
     and_then (pure_call SharedData (shared_data c environ)) (\<lambda>served.
       case served of
         Some file_response \<Rightarrow> return (Resp file_response)
       | None \<Rightarrow> app environ)"

text \<open>
  \<open>__call__\<close> calls \<open>self.wsgi_app\<close>, which \<open>__init__\<close> has rebound to the middleware
  around the method \<open>wsgi_app\<close>. Neither has a \<open>try\<close>.
\<close>

definition app_call :: "('p, 'r) collab \<Rightarrow> request \<Rightarrow> ('p, reply) action" where
  "app_call c environ = shared_data_middleware c (wsgi_app c) environ"

text \<open>
  Modelled from the spec: the top-level handler of the WSGI server that runs the
  application (\<open>run_simple\<close>), which is not in \<open>server.py\<close>. The specification says of
  it only that a failure that reaches it becomes a generic server error response. That
  response is the server's and is a parameter here; a server error is a response whose
  status is in the range 500 to 599.
\<close>

definition top_level_handler :: "response \<Rightarrow> (exn + reply) \<Rightarrow> reply" where
  "top_level_handler server_error r =
     (case r of
        Inl e \<Rightarrow> Resp server_error
      | Inr rep \<Rightarrow> rep)"

definition is_server_error :: "response \<Rightarrow> bool" where
  "is_server_error r = (500 \<le> status r \<and> status r < 600)"

text \<open>The status a reply is sent with.\<close>

fun reply_status :: "reply \<Rightarrow> nat" where
  "reply_status (Resp r) = status r"
| "reply_status (Exc (NotFound d)) = 404"
| "reply_status (Exc (HTTPException code b)) = code"
| "reply_status (Exc (Exception n)) = 500"

section \<open>Normalized paths\<close>

text \<open>
  \<open>sep.join(words)\<close>, and the normalized form of a path: its non-empty segments with
  one separator between neighbours.
\<close>

fun join :: "string \<Rightarrow> string list \<Rightarrow> string" where
  "join sep [] = []"
| "join sep [w] = w"
| "join sep (w # ws) = w @ sep @ join sep ws"

definition normalized :: "string \<Rightarrow> string" where
  "normalized path = join ''/'' (parts_of path)"

section \<open>A sample tree\<close>

text \<open>The tree of the scenario in the specification, with two empty directories added.\<close>

definition sample_tree :: "tree_node list" where
  "sample_tree =
     [Node ''directory'' ''docs''
        (Some [Node ''file'' ''a.md'' None, Node ''file'' ''b.md'' None]),
      Node ''file'' ''readme.md'' None,
      Node ''directory'' ''empty'' (Some []),
      Node ''directory'' ''bare'' None]"

section \<open>A sample content provider\<close>

text \<open>
  Collaborators for the examples: a static directory that holds \<open>app.js\<close>, a matcher that
  knows the paths of the URL map (and answers \<open>/v\<close> with a redirect), a provider whose tree is the sample tree, whose only
  file is \<open>readme.md\<close>, and which fails in three different ways on other names, and
  templates that write their arguments out.
\<close>

definition sample_match :: "request \<Rightarrow> exn + (string \<times> string option)" where
  "sample_match r =
     (let p = req_path r in
      if p = ''/'' then Inr (''home'', None)
      else if p = ''/v/'' then Inr (''index'', None)
      else if p = ''/m/'' then Inr (''index_mdplain'', None)
      else if p = ''/api/tree'' then Inr (''dirtree'', None)
      else if p = ''/api/search'' then Inr (''search'', None)
      else if take 3 p = ''/v/'' then Inr (''view'', Some (drop 3 p))
      else if take 3 p = ''/m/'' then Inr (''mdplain'', Some (drop 3 p))
      else if take 3 p = ''/t/'' then Inr (''mdtext'', Some (drop 3 p))
      else if take 8 p = ''/static/'' \<and> drop 8 p \<noteq> [] then Inr (''static'', Some (drop 8 p))
      else if p = ''/v'' then Inl (HTTPException 308 ''/v/'')
      else Inl (NotFound ''''))"

definition sample :: "(nat, string list) collab" where
  "sample =
     \<lparr>shared_data = (\<lambda>r.
        Inr (if req_path r = ''/static/app.js''
             then Some \<lparr>status = 200, mimetype = Some ''text/javascript'', body = ''//'',
                         headers = []\<rparr>
             else None)),
      bind_to_environ = (\<lambda>r. Inr ()),
      url_match = sample_match,
      is_file = (\<lambda>f p. (Inr (f = ''readme.md''), p)),
      get_content = (\<lambda>f raw p.
        (if f = ''readme.md'' then Inr (if raw = Some True then ''# Readme'' else ''<h1>Readme</h1>'')
         else if f = ''teapot'' then Inl (HTTPException 418 ''teapot'')
         else if f = ''broken'' then Inl (Exception ''OSError'')
         else Inl (NotFound ''''), p)),
      get_tree = (\<lambda>p. (Inr sample_tree, p)),
      refresh = (\<lambda>p. (Inr (), Suc p)),
      search = (\<lambda>q p. (Inr [], p)),
      get_template = (\<lambda>n. Inr ()),
      render = (\<lambda>n a. Inr (case a of
                  Content x \<Rightarrow> n @ '':'' @ x
                | Listing t pre root \<Rightarrow> concat (map (\<lambda>k. pre @ root @ '' '' @ name k @ ''; '') t))),
      parse = (\<lambda>s. Inr s),
      dumps_tree = (\<lambda>t. Inr (concat (map name t))),
      dumps = (\<lambda>r. Inr (concat r))\<rparr>"

section \<open>Properties of the record of calls\<close>

text \<open>
  \<open>adds P m\<close>: wherever \<open>m\<close> runs, it keeps the calls made so far and appends a list
  of calls that satisfies \<open>P\<close>.
\<close>

definition adds :: "(call list \<Rightarrow> bool) \<Rightarrow> ('p, 'a) action \<Rightarrow> bool" where
  "adds P m = (\<forall>w. \<exists>l. calls (snd (m w)) = calls w @ l \<and> P l)"

definition no_refresh :: "call list \<Rightarrow> bool" where
  "no_refresh l = (Refresh \<notin> set l)"

definition one_refresh_first :: "call list \<Rightarrow> bool" where
  "one_refresh_first l = (\<exists>rest. l = Refresh # rest \<and> Refresh \<notin> set rest)"

section \<open>The scan of one node list\<close>


lemma find_dir_None_iff:
  "find_dir nodes part = None \<longleftrightarrow> (\<forall>n \<in> set nodes. \<not> (ntype n = ''directory'' \<and> name n = part))"
  by (induction nodes) auto

lemma find_dir_first:
  "find_dir nodes part = Some d \<longleftrightarrow>
     (\<exists>pre post. nodes = pre @ d # post \<and> ntype d = ''directory'' \<and> name d = part \<and>
        (\<forall>n \<in> set pre. \<not> (ntype n = ''directory'' \<and> name n = part)))"
proof (induction nodes)
  case Nil
  then show ?case by simp
next
  case (Cons x xs)
  show ?case
  proof (cases "ntype x = ''directory'' \<and> name x = part")
    case True
    have "(\<exists>pre post. x # xs = pre @ d # post \<and> ntype d = ''directory'' \<and> name d = part \<and>
        (\<forall>n \<in> set pre. \<not> (ntype n = ''directory'' \<and> name n = part))) \<longleftrightarrow> x = d"
    proof
      assume "\<exists>pre post. x # xs = pre @ d # post \<and> ntype d = ''directory'' \<and> name d = part \<and>
        (\<forall>n \<in> set pre. \<not> (ntype n = ''directory'' \<and> name n = part))"
      then obtain pre post where p: "x # xs = pre @ d # post"
        and q: "\<forall>n \<in> set pre. \<not> (ntype n = ''directory'' \<and> name n = part)" by blast
      show "x = d"
      proof (cases pre)
        case Nil
        with p show ?thesis by simp
      next
        case (Cons y ys)
        with p have "y = x" by simp
        with Cons q True show ?thesis by simp
      qed
    next
      assume "x = d"
      with True have "x # xs = [] @ d # xs \<and> ntype d = ''directory'' \<and> name d = part \<and>
        (\<forall>n \<in> set []. \<not> (ntype n = ''directory'' \<and> name n = part))" by simp
      then show "\<exists>pre post. x # xs = pre @ d # post \<and> ntype d = ''directory'' \<and> name d = part \<and>
        (\<forall>n \<in> set pre. \<not> (ntype n = ''directory'' \<and> name n = part))" by blast
    qed
    then have A: "(\<exists>pre post. x # xs = pre @ d # post \<and> ntype d = ''directory'' \<and> name d = part \<and>
        (\<forall>n \<in> set pre. \<not> (ntype n = ''directory'' \<and> name n = part))) = (x = d)" .
    have B: "(find_dir (x # xs) part = Some d) = (x = d)" using True by auto
    show ?thesis by (simp only: A B)
  next
    case False
    have "(\<exists>pre post. x # xs = pre @ d # post \<and> ntype d = ''directory'' \<and> name d = part \<and>
        (\<forall>n \<in> set pre. \<not> (ntype n = ''directory'' \<and> name n = part))) \<longleftrightarrow>
      (\<exists>pre post. xs = pre @ d # post \<and> ntype d = ''directory'' \<and> name d = part \<and>
        (\<forall>n \<in> set pre. \<not> (ntype n = ''directory'' \<and> name n = part)))" (is "?L \<longleftrightarrow> ?R")
    proof
      assume ?L
      then obtain pre post where p: "x # xs = pre @ d # post"
        and t: "ntype d = ''directory'' \<and> name d = part"
        and q: "\<forall>n \<in> set pre. \<not> (ntype n = ''directory'' \<and> name n = part)" by blast
      from p t False obtain ys where "pre = x # ys" by (cases pre) auto
      with p q t have "xs = ys @ d # post \<and> ntype d = ''directory'' \<and> name d = part \<and>
         (\<forall>n \<in> set ys. \<not> (ntype n = ''directory'' \<and> name n = part))" by simp
      then show ?R by blast
    next
      assume ?R
      then obtain pre post where p: "xs = pre @ d # post"
        and t: "ntype d = ''directory'' \<and> name d = part"
        and q: "\<forall>n \<in> set pre. \<not> (ntype n = ''directory'' \<and> name n = part)" by blast
      with False have "x # xs = (x # pre) @ d # post \<and> ntype d = ''directory'' \<and> name d = part \<and>
         (\<forall>n \<in> set (x # pre). \<not> (ntype n = ''directory'' \<and> name n = part))" by simp
      then show ?L by blast
    qed
    then have A: "?L = ?R" .
    have B: "find_dir (x # xs) part = find_dir xs part" using False by auto
    show ?thesis by (simp only: B Cons.IH A)
  qed
qed

lemma find_dir_filter:
  "find_dir (filter (\<lambda>n. ntype n = ''directory'') nodes) part = find_dir nodes part"
  by (induction nodes) auto




section \<open>The walk and the addressed nodes\<close>



lemma split_not_Nil: "split sep s \<noteq> []"
  by (induction s) (auto split: list.splits)

lemma split_append_sep: "split sep (a @ sep # b) = split sep a @ split sep b"
proof (induction a)
  case Nil
  then show ?case by simp
next
  case (Cons c a)
  then show ?case
    by (cases "split sep a") (auto simp: split_not_Nil)
qed

lemma parts_of_append_slash: "parts_of (a @ CHR ''/'' # b) = parts_of a @ parts_of b"
  by (simp add: parts_of_def split_append_sep)

lemma parts_of_empty: "parts_of [] = []"
  by (simp add: parts_of_def)

lemma parts_of_leading: "parts_of (CHR ''/'' # p) = parts_of p"
  using parts_of_append_slash [of "[]" p] by (simp add: parts_of_empty)

lemma parts_of_trailing: "parts_of (p @ ''/'') = parts_of p"
  using parts_of_append_slash [of p "[]"] by (simp add: parts_of_empty)

lemma parts_of_double: "parts_of (a @ ''//'' @ b) = parts_of (a @ ''/'' @ b)"
  using parts_of_append_slash [of a "CHR ''/'' # b"] parts_of_append_slash [of a b]
  by (simp add: parts_of_leading)

lemma split_no_sep: "w \<in> set (split sep s) \<Longrightarrow> sep \<notin> set w"
  by (induction s arbitrary: w) (auto split: if_splits list.splits)

section \<open>Resolution of addressed paths\<close>




section \<open>Redundant separators\<close>

lemma split_sep_free: "sep \<notin> set w \<Longrightarrow> split sep w = [w]"
  by (induction w) auto

lemma parts_of_segment: "w \<noteq> [] \<Longrightarrow> CHR ''/'' \<notin> set w \<Longrightarrow> parts_of w = [w]"
  by (simp add: parts_of_def split_sep_free)

lemma parts_of_join:
  "\<forall>w \<in> set ws. w \<noteq> [] \<and> CHR ''/'' \<notin> set w \<Longrightarrow> parts_of (join ''/'' ws) = ws"
proof (induction "''/''" ws rule: join.induct)
  case 1
  then show ?case by (simp add: parts_of_empty)
next
  case (2 w)
  then show ?case by (simp add: parts_of_segment)
next
  case (3 w v ws)
  then have "parts_of (join ''/'' (v # ws)) = v # ws" by simp
  moreover from 3 have "parts_of w = [w]" by (simp add: parts_of_segment)
  ultimately show ?case
    using parts_of_append_slash [of w "join ''/'' (v # ws)"] by simp
qed

lemma parts_of_normalized: "parts_of (normalized p) = parts_of p"
proof -
  have "\<forall>w \<in> set (parts_of p). w \<noteq> [] \<and> CHR ''/'' \<notin> set w"
    by (auto simp: parts_of_def dest: split_no_sep)
  then show ?thesis unfolding normalized_def by (rule parts_of_join)
qed

lemma get_children_parts:
  "parts_of p = parts_of q \<Longrightarrow> get_children tree p = get_children tree q"
  by (simp add: get_children_def)

text \<open>
  C4. The empty path and \<open>/\<close> both resolve to the root child list. A leading slash, a
  trailing slash and a doubled slash do not change what a path resolves to, every path
  resolves as its normalized form does, and so do the three paths the specification names.
\<close>

theorem redundant_separators:
  "get_children tree '''' = Some tree \<and>
   get_children tree ''/'' = Some tree \<and>
   get_children tree (''/'' @ p) = get_children tree p \<and>
   get_children tree (p @ ''/'') = get_children tree p \<and>
   get_children tree (a @ ''//'' @ b) = get_children tree (a @ ''/'' @ b) \<and>
   get_children tree p = get_children tree (normalized p) \<and>
   normalized ''a//b/'' = ''a/b'' \<and>
   get_children tree ''a//b/'' = get_children tree ''a/b'' \<and>
   get_children tree ''/a/b'' = get_children tree ''a/b'' \<and>
   get_children tree ''a/b/'' = get_children tree ''a/b''"
proof -
  have 1: "get_children tree '''' = Some tree"
    by (simp add: get_children_def parts_of_empty)
  have 2: "get_children tree ''/'' = Some tree"
    by (simp add: get_children_def parts_of_def)
  have 3: "get_children tree (''/'' @ p) = get_children tree p"
    by (rule get_children_parts) (simp add: parts_of_leading)
  have 4: "get_children tree (p @ ''/'') = get_children tree p"
    by (rule get_children_parts) (rule parts_of_trailing)
  have 5: "get_children tree (a @ ''//'' @ b) = get_children tree (a @ ''/'' @ b)"
    by (rule get_children_parts) (rule parts_of_double)
  have 6: "get_children tree p = get_children tree (normalized p)"
    by (rule get_children_parts) (simp add: parts_of_normalized)
  have 7: "normalized ''a//b/'' = ''a/b''"
    by (simp add: normalized_def parts_of_def)
  have 8: "get_children tree ''a//b/'' = get_children tree ''a/b''"
    by (rule get_children_parts) (simp add: parts_of_def)
  have 9: "get_children tree ''/a/b'' = get_children tree ''a/b''"
    by (rule get_children_parts) (simp add: parts_of_def)
  have 10: "get_children tree ''a/b/'' = get_children tree ''a/b''"
    by (rule get_children_parts) (simp add: parts_of_def)
  from 1 2 3 4 5 6 7 8 9 10 show ?thesis by blast
qed

section \<open>Empty directories\<close>



section \<open>File nodes in the scan\<close>

text \<open>
  C10. The scan for one segment looks at directory nodes only: dropping every node that is
  not a directory from the list does not change the walk; the walk descends into the first
  directory node of that name in stored order, whatever precedes it; and the scan fails
  exactly when no directory node of the list has that name.
\<close>

theorem scan_takes_first_directory:
  "walk nodes (part # rest) = walk (filter (\<lambda>n. ntype n = ''directory'') nodes) (part # rest) \<and>
   (\<forall>pre d post.
      nodes = pre @ d # post \<and> ntype d = ''directory'' \<and> name d = part \<and>
      (\<forall>n \<in> set pre. \<not> (ntype n = ''directory'' \<and> name n = part)) \<longrightarrow>
      find_dir nodes part = Some d \<and>
      walk nodes (part # rest) = walk (get_children_key d) rest) \<and>
   ((\<forall>n \<in> set nodes. \<not> (ntype n = ''directory'' \<and> name n = part)) \<longleftrightarrow>
      find_dir nodes part = None) \<and>
   (walk nodes [part] = None \<longleftrightarrow>
      (\<forall>n \<in> set nodes. \<not> (ntype n = ''directory'' \<and> name n = part)))"
proof (intro conjI allI impI)
  show "walk nodes (part # rest) = walk (filter (\<lambda>n. ntype n = ''directory'') nodes) (part # rest)"
    by (simp add: find_dir_filter)
next
  fix pre d post
  assume a: "nodes = pre @ d # post \<and> ntype d = ''directory'' \<and> name d = part \<and>
      (\<forall>n \<in> set pre. \<not> (ntype n = ''directory'' \<and> name n = part))"
  then have "\<exists>pre post. nodes = pre @ d # post \<and> ntype d = ''directory'' \<and> name d = part \<and>
      (\<forall>n \<in> set pre. \<not> (ntype n = ''directory'' \<and> name n = part))" by blast
  then show f: "find_dir nodes part = Some d" by (simp only: find_dir_first)
  then show "walk nodes (part # rest) = walk (get_children_key d) rest" by simp
next
  show "(\<forall>n \<in> set nodes. \<not> (ntype n = ''directory'' \<and> name n = part)) \<longleftrightarrow>
      find_dir nodes part = None" by (simp only: find_dir_None_iff)
next
  show "walk nodes [part] = None \<longleftrightarrow>
      (\<forall>n \<in> set nodes. \<not> (ntype n = ''directory'' \<and> name n = part))"
  proof -
    have "walk nodes [part] = None \<longleftrightarrow> find_dir nodes part = None"
      by (cases "find_dir nodes part") simp_all
    then show ?thesis by (simp only: find_dir_None_iff)
  qed
qed

theorem scan_takes_first_directory_witness:
  "get_children
     [Node ''file'' ''a'' None,
      Node ''directory'' ''a'' (Some [Node ''file'' ''x'' None]),
      Node ''directory'' ''a'' (Some [Node ''file'' ''y'' None])] ''a''
   = Some [Node ''file'' ''x'' None] \<and>
   get_children [Node ''file'' ''a'' None] ''a'' = None"
  using scan_takes_first_directory
     [of "[Node ''file'' ''a'' None,
      Node ''directory'' ''a'' (Some [Node ''file'' ''x'' None]),
      Node ''directory'' ''a'' (Some [Node ''file'' ''y'' None])]" "''a''" "[]"]
    scan_takes_first_directory [of "[Node ''file'' ''a'' None]" "''a''" "[]"]
  by (simp add: get_children_def parts_of_def get_children_key_def)

section \<open>Reasoning about the calls an action makes\<close>

lemma adds_return: "P [] \<Longrightarrow> adds P (return x)"
  by (simp add: adds_def return_def)

lemma adds_raise: "P [] \<Longrightarrow> adds P (raise e)"
  by (simp add: adds_def raise_def)

lemma adds_state_call: "P [c] \<Longrightarrow> adds P (state_call c f)"
  by (simp add: adds_def state_call_def split: prod.splits)

lemma adds_pure_call: "P [c] \<Longrightarrow> adds P (pure_call c r)"
  by (simp add: adds_def pure_call_def)

lemma adds_and_then:
  assumes m: "adds P m" and f: "\<And>x. adds Q (f x)"
    and stop: "\<And>l. P l \<Longrightarrow> R l" and go: "\<And>l1 l2. P l1 \<Longrightarrow> Q l2 \<Longrightarrow> R (l1 @ l2)"
  shows "adds R (and_then m f)"
  unfolding adds_def
proof
  fix w
  from m obtain l1 where l1: "calls (snd (m w)) = calls w @ l1" "P l1"
    unfolding adds_def by blast
  show "\<exists>l. calls (snd (and_then m f w)) = calls w @ l \<and> R l"
  proof (cases "m w")
    case (Pair r w')
    show ?thesis
    proof (cases r)
      case (Inl e)
      with Pair l1 stop show ?thesis by (auto simp: and_then_def)
    next
      case (Inr x)
      from f obtain l2 where l2: "calls (snd (f x w')) = calls w' @ l2" "Q l2"
        unfolding adds_def by blast
      with Pair Inr l1 have "calls (snd (and_then m f w)) = calls w @ (l1 @ l2)"
        by (simp add: and_then_def)
      with go [OF l1(2) l2(2)] show ?thesis by blast
    qed
  qed
qed

lemma adds_try_except:
  assumes m: "adds P m" and h: "\<And>e. adds Q (h e)"
    and ok: "\<And>l. P l \<Longrightarrow> R l" and caught: "\<And>l1 l2. P l1 \<Longrightarrow> Q l2 \<Longrightarrow> R (l1 @ l2)"
  shows "adds R (try_except m h)"
  unfolding adds_def
proof
  fix w
  from m obtain l1 where l1: "calls (snd (m w)) = calls w @ l1" "P l1"
    unfolding adds_def by blast
  show "\<exists>l. calls (snd (try_except m h w)) = calls w @ l \<and> R l"
  proof (cases "m w")
    case (Pair r w')
    show ?thesis
    proof (cases r)
      case (Inr x)
      with Pair l1 ok show ?thesis by (auto simp: try_except_def)
    next
      case (Inl e)
      from h obtain l2 where l2: "calls (snd (h e w')) = calls w' @ l2" "Q l2"
        unfolding adds_def by blast
      with Pair Inl l1 have "calls (snd (try_except m h w)) = calls w @ (l1 @ l2)"
        by (simp add: try_except_def)
      with caught [OF l1(2) l2(2)] show ?thesis by blast
    qed
  qed
qed

lemma adds_new_calls:
  assumes "adds P m"
  shows "calls (snd (m w)) = calls w @ new_calls m w \<and> P (new_calls m w)"
proof -
  from assms obtain l where "calls (snd (m w)) = calls w @ l" "P l"
    unfolding adds_def by blast
  then show ?thesis by (simp add: new_calls_def)
qed

subsection \<open>Actions that never refresh\<close>

lemma quiet_return: "adds no_refresh (return x)"
  by (rule adds_return) (simp add: no_refresh_def)

lemma quiet_raise: "adds no_refresh (raise e)"
  by (rule adds_raise) (simp add: no_refresh_def)

lemma quiet_state_call: "c \<noteq> Refresh \<Longrightarrow> adds no_refresh (state_call c f)"
  by (rule adds_state_call) (simp add: no_refresh_def)

lemma quiet_pure_call: "c \<noteq> Refresh \<Longrightarrow> adds no_refresh (pure_call c r)"
  by (rule adds_pure_call) (simp add: no_refresh_def)

lemma quiet_and_then:
  "adds no_refresh m \<Longrightarrow> (\<And>x. adds no_refresh (f x)) \<Longrightarrow> adds no_refresh (and_then m f)"
  by (erule adds_and_then [where Q = no_refresh]) (auto simp: no_refresh_def)

lemma quiet_try_except:
  "adds no_refresh m \<Longrightarrow> (\<And>e. adds no_refresh (h e)) \<Longrightarrow> adds no_refresh (try_except m h)"
  by (erule adds_try_except [where Q = no_refresh]) (auto simp: no_refresh_def)

lemma adds_if: "adds P a \<Longrightarrow> adds P b \<Longrightarrow> adds P (if x then a else b)"
  by simp

lemma adds_case_option:
  "adds P a \<Longrightarrow> (\<And>y. adds P (g y)) \<Longrightarrow> adds P (case x of None \<Rightarrow> a | Some y \<Rightarrow> g y)"
  by (cases x) simp_all

lemmas quiet_rules =
  quiet_and_then quiet_return quiet_raise quiet_state_call quiet_pure_call
  adds_if adds_case_option

lemma quiet_render_markdown: "adds no_refresh (render_markdown c template content)"
  unfolding render_markdown_def by (intro quiet_rules) simp_all

lemma quiet_render_tree: "adds no_refresh (render_tree c template prefix f)"
  unfolding render_tree_def
  by (intro quiet_rules quiet_render_markdown; simp)

lemma quiet_render_file: "adds no_refresh (render_file c template f)"
  unfolding render_file_def by (intro quiet_rules quiet_render_markdown) simp_all

lemma quiet_handle_common: "adds no_refresh (handle_common c f template prefix)"
  unfolding handle_common_def
  by (intro quiet_rules quiet_render_file quiet_render_tree; simp)

lemma quiet_on_home: "adds no_refresh (on_home c req)"
  unfolding on_home_def by (rule quiet_return)

lemma quiet_on_dirtree: "adds no_refresh (on_dirtree c req)"
  unfolding on_dirtree_def by (intro quiet_rules) simp_all

lemma quiet_on_search: "adds no_refresh (on_search c req)"
  unfolding on_search_def Let_def by (intro quiet_rules) simp_all

lemma quiet_on_mdplain: "adds no_refresh (on_mdplain c req f)"
  unfolding on_mdplain_def by (rule quiet_handle_common)

lemma quiet_on_view: "adds no_refresh (on_view c req f)"
  unfolding on_view_def by (rule quiet_handle_common)

lemma quiet_on_mdtext: "adds no_refresh (on_mdtext c req f)"
  unfolding on_mdtext_def by (intro quiet_rules) simp_all

lemma refresh_then_quiet:
  "(\<And>x. adds no_refresh (f x)) \<Longrightarrow>
   adds one_refresh_first (and_then (state_call Refresh r) f)"
  by (rule adds_and_then [where P = "\<lambda>l. l = [Refresh]" and Q = no_refresh])
     (auto simp: adds_state_call one_refresh_first_def no_refresh_def)

lemma once_on_index: "adds one_refresh_first (on_index c req)"
  unfolding on_index_def by (rule refresh_then_quiet) (intro quiet_rules; simp)

lemma once_on_index_mdplain: "adds one_refresh_first (on_index_mdplain c req)"
  unfolding on_index_mdplain_def by (rule refresh_then_quiet) (intro quiet_rules; simp)

section \<open>What the dispatcher does with a request\<close>

lemma adds_weaken: "adds P m \<Longrightarrow> (\<And>l. P l \<Longrightarrow> Q l) \<Longrightarrow> adds Q m"
  unfolding adds_def by blast

lemma handle_index: "handle c ''index'' req None = on_index c req"
  by (simp add: handle_def getattr_on_def apply_handler_def)

lemma handle_index_mdplain: "handle c ''index_mdplain'' req None = on_index_mdplain c req"
  by (simp add: handle_def getattr_on_def apply_handler_def)

lemma quiet_apply_plain:
  "vals \<noteq> None \<or> adds no_refresh (f req) \<Longrightarrow> adds no_refresh (apply_handler (Plain f) req vals)"
  by (cases vals) (auto simp: apply_handler_def quiet_raise)

lemma quiet_apply_named:
  "(\<And>x. adds no_refresh (f req x)) \<Longrightarrow> adds no_refresh (apply_handler (Named f) req vals)"
  by (cases vals) (auto simp: apply_handler_def quiet_raise)

lemma quiet_handle:
  assumes "\<not> ((ep = ''index'' \<or> ep = ''index_mdplain'') \<and> vals = None)"
  shows "adds no_refresh (handle c ep req vals)"
proof (cases "getattr_on c ep")
  case None
  then show ?thesis by (simp add: handle_def quiet_raise)
next
  case (Some h)
  then have "(ep, h) \<in> set
       [(''home'', Plain (on_home c)),
        (''index'', Plain (on_index c)),
        (''index_mdplain'', Plain (on_index_mdplain c)),
        (''dirtree'', Plain (on_dirtree c)),
        (''search'', Plain (on_search c)),
        (''mdplain'', Named (on_mdplain c)),
        (''view'', Named (on_view c)),
        (''mdtext'', Named (on_mdtext c))]"
    unfolding getattr_on_def by (rule map_of_SomeD)
  then have "ep = ''home'' \<and> h = Plain (on_home c) \<or>
             ep = ''index'' \<and> h = Plain (on_index c) \<or>
             ep = ''index_mdplain'' \<and> h = Plain (on_index_mdplain c) \<or>
             ep = ''dirtree'' \<and> h = Plain (on_dirtree c) \<or>
             ep = ''search'' \<and> h = Plain (on_search c) \<or>
             ep = ''mdplain'' \<and> h = Named (on_mdplain c) \<or>
             ep = ''view'' \<and> h = Named (on_view c) \<or>
             ep = ''mdtext'' \<and> h = Named (on_mdtext c)" by simp
  moreover have "handle c ep req vals = apply_handler h req vals"
    using Some by (simp add: handle_def)
  ultimately show ?thesis
    using assms
    by (elim disjE conjE)
       (simp_all add: quiet_apply_plain quiet_apply_named quiet_on_home quiet_on_dirtree
          quiet_on_search quiet_on_mdplain quiet_on_view quiet_on_mdtext)
qed

lemma handle_grows: "adds (\<lambda>l. True) (handle c ep req vals)"
proof (cases "(ep = ''index'' \<or> ep = ''index_mdplain'') \<and> vals = None")
  case True
  then show ?thesis
    using once_on_index [of c req] once_on_index_mdplain [of c req]
    by (auto simp: handle_index handle_index_mdplain intro: adds_weaken)
next
  case False
  then show ?thesis using quiet_handle [of ep vals c req] by (auto intro: adds_weaken)
qed

lemma dispatch_bind_fails:
  "bind_to_environ c req = Inl e \<Longrightarrow>
   dispatch c req w = (Inl e, \<lparr>provider = provider w, calls = calls w @ [BindToEnviron]\<rparr>)"
  by (simp add: dispatch_def and_then_def pure_call_def)

lemma dispatch_match_fails:
  "bind_to_environ c req = Inr () \<Longrightarrow> url_match c req = Inl e \<Longrightarrow>
   dispatch c req w =
     (case e of
        NotFound d \<Rightarrow> Inr (Resp \<lparr>status = 404, mimetype = Some ''text/plain'',
                                  body = ''Not found'', headers = []\<rparr>)
      | HTTPException code b \<Rightarrow> Inr (Exc e)
      | Exception n \<Rightarrow> Inl e,
      \<lparr>provider = provider w, calls = calls w @ [BindToEnviron, Match]\<rparr>)"
  by (cases e) (simp_all add: dispatch_def and_then_def try_except_def pure_call_def return_def raise_def)

lemma dispatch_matched:
  "bind_to_environ c req = Inr () \<Longrightarrow> url_match c req = Inr (ep, vals) \<Longrightarrow>
   dispatch c req w =
     (case handle c ep req vals \<lparr>provider = provider w, calls = calls w @ [BindToEnviron, Match]\<rparr> of
        (Inl (NotFound d), w') \<Rightarrow>
           (Inr (Resp \<lparr>status = 404, mimetype = Some ''text/plain'',
                        body = ''Not found'', headers = []\<rparr>), w')
      | (Inl (HTTPException code b), w') \<Rightarrow> (Inr (Exc (HTTPException code b)), w')
      | (Inl (Exception n), w') \<Rightarrow> (Inl (Exception n), w')
      | (Inr rep, w') \<Rightarrow> (Inr rep, w'))"
  by (simp add: dispatch_def and_then_def try_except_def pure_call_def return_def raise_def
        split: prod.splits sum.splits exn.splits)

lemma dispatch_matched_world:
  "bind_to_environ c req = Inr () \<Longrightarrow> url_match c req = Inr (ep, vals) \<Longrightarrow>
   snd (dispatch c req w) =
     snd (handle c ep req vals \<lparr>provider = provider w, calls = calls w @ [BindToEnviron, Match]\<rparr>)"
  by (simp add: dispatch_matched split: prod.splits sum.splits exn.splits)

lemma dispatch_matched_calls:
  assumes "bind_to_environ c req = Inr ()" and "url_match c req = Inr (ep, vals)"
  shows "calls (snd (dispatch c req w)) = calls w @ new_calls (dispatch c req) w \<and>
         new_calls (dispatch c req) w =
           BindToEnviron # Match #
           new_calls (handle c ep req vals)
             \<lparr>provider = provider w, calls = calls w @ [BindToEnviron, Match]\<rparr>"
proof -
  define w2 where "w2 = \<lparr>provider = provider w, calls = calls w @ [BindToEnviron, Match]\<rparr>"
  define l where "l = new_calls (handle c ep req vals) w2"
  from adds_new_calls [OF handle_grows, of c ep req vals w2]
  have "calls (snd (handle c ep req vals w2)) = calls w @ BindToEnviron # Match # l"
    by (simp add: w2_def l_def)
  with dispatch_matched_world [OF assms, of w]
  have d: "calls (snd (dispatch c req w)) = calls w @ BindToEnviron # Match # l"
    by (simp add: w2_def)
  then have "new_calls (dispatch c req) w = BindToEnviron # Match # l"
    by (simp add: new_calls_def)
  with d show ?thesis by (simp add: l_def w2_def)
qed

lemmas run_defs =
  dispatch_def and_then_def try_except_def pure_call_def state_call_def return_def raise_def
  handle_def getattr_on_def apply_handler_def

section \<open>Refreshing the tree\<close>

lemma url_map_index: "map_of url_map rule = Some ''index'' \<longleftrightarrow> rule = ''/v/''"
  by (simp add: url_map_def)

lemma url_map_index_mdplain: "map_of url_map rule = Some ''index_mdplain'' \<longleftrightarrow> rule = ''/m/''"
  by (simp add: url_map_def)

lemma count_no_refresh: "no_refresh l \<Longrightarrow> count_list l Refresh = 0"
  by (simp add: no_refresh_def)

lemma count_one_refresh:
  "one_refresh_first l \<Longrightarrow> count_list l Refresh = 1 \<and> take 1 l = [Refresh]"
  by (auto simp: one_refresh_first_def)

lemma on_index_run:
  assumes "refresh c (provider w) = (Inr (), p1)"
    and "get_tree c p1 = (Inr t, p2)"
    and "get_template c ''tree.md'' = Inr ()"
    and "render c ''tree.md'' (Listing t ''v'' ''/'') = Inr md"
    and "get_template c ''viewer.html'' = Inr ()"
    and "parse c md = Inr parsed"
    and "render c ''viewer.html'' (Content parsed) = Inr page"
  shows "on_index c req w =
     (Inr (Resp \<lparr>status = 200, mimetype = Some ''text/html'', body = page, headers = []\<rparr>),
      \<lparr>provider = p2,
         calls = calls w @ [Refresh, GetTree, GetTemplate ''tree.md'',
                            Render ''tree.md'' (Listing t ''v'' ''/''),
                            GetTemplate ''viewer.html'', Parse md,
                            Render ''viewer.html'' (Content parsed)]\<rparr>)"
  using assms
  by (simp add: on_index_def and_then_def state_call_def pure_call_def return_def)

lemma on_index_mdplain_run:
  assumes "refresh c (provider w) = (Inr (), p1)"
    and "get_tree c p1 = (Inr t, p2)"
    and "get_template c ''tree.md'' = Inr ()"
    and "render c ''tree.md'' (Listing t ''m'' ''/'') = Inr md"
    and "get_template c ''plain.html'' = Inr ()"
    and "parse c md = Inr parsed"
    and "render c ''plain.html'' (Content parsed) = Inr page"
  shows "on_index_mdplain c req w =
     (Inr (Resp \<lparr>status = 200, mimetype = Some ''text/html'', body = page, headers = []\<rparr>),
      \<lparr>provider = p2,
         calls = calls w @ [Refresh, GetTree, GetTemplate ''tree.md'',
                            Render ''tree.md'' (Listing t ''m'' ''/''),
                            GetTemplate ''plain.html'', Parse md,
                            Render ''plain.html'' (Content parsed)]\<rparr>)"
  using assms
  by (simp add: on_index_mdplain_def and_then_def state_call_def pure_call_def return_def)

lemma on_index_refresh_fails:
  "refresh c (provider w) = (Inl e, p1) \<Longrightarrow>
   on_index c req w = (Inl e, \<lparr>provider = p1, calls = calls w @ [Refresh]\<rparr>)"
  by (simp add: on_index_def and_then_def state_call_def)

lemma on_index_mdplain_refresh_fails:
  "refresh c (provider w) = (Inl e, p1) \<Longrightarrow>
   on_index_mdplain c req w = (Inl e, \<lparr>provider = p1, calls = calls w @ [Refresh]\<rparr>)"
  by (simp add: on_index_mdplain_def and_then_def state_call_def)

subsection \<open>Handlers that do not depend on the provider's refresh\<close>

lemma render_markdown_frame:
  "render_markdown (c\<lparr>refresh := r\<rparr>) template content = render_markdown c template content"
  by (simp add: render_markdown_def)

lemma render_tree_frame:
  "render_tree (c\<lparr>refresh := r\<rparr>) template prefix f = render_tree c template prefix f"
  by (simp add: render_tree_def render_markdown_frame cong: option.case_cong)

lemma render_file_frame:
  "render_file (c\<lparr>refresh := r\<rparr>) template f = render_file c template f"
  by (simp add: render_file_def render_markdown_frame)

lemma handle_common_frame:
  "handle_common (c\<lparr>refresh := r\<rparr>) f template prefix = handle_common c f template prefix"
  by (simp add: handle_common_def render_file_frame render_tree_frame cong: if_cong)

lemma on_home_frame: "on_home (c\<lparr>refresh := r\<rparr>) = on_home c"
  by (rule ext) (simp add: on_home_def)

lemma on_dirtree_frame: "on_dirtree (c\<lparr>refresh := r\<rparr>) = on_dirtree c"
  by (rule ext) (simp add: on_dirtree_def)

lemma on_search_frame: "on_search (c\<lparr>refresh := r\<rparr>) = on_search c"
  by (rule ext) (simp add: on_search_def)

lemma on_mdplain_frame: "on_mdplain (c\<lparr>refresh := r\<rparr>) = on_mdplain c"
  by (intro ext) (simp add: on_mdplain_def handle_common_frame)

lemma on_view_frame: "on_view (c\<lparr>refresh := r\<rparr>) = on_view c"
  by (intro ext) (simp add: on_view_def handle_common_frame)

lemma on_mdtext_frame: "on_mdtext (c\<lparr>refresh := r\<rparr>) = on_mdtext c"
  by (intro ext) (simp add: on_mdtext_def)

lemmas handler_frames =
  on_home_frame on_dirtree_frame on_search_frame on_mdplain_frame on_view_frame on_mdtext_frame

lemma apply_plain_values: "apply_handler (Plain f) req (Some x) = raise (Exception ''TypeError'')"
  by (simp add: apply_handler_def)

lemma handle_frame:
  assumes "\<not> ((ep = ''index'' \<or> ep = ''index_mdplain'') \<and> vals = None)"
  shows "handle (c\<lparr>refresh := r\<rparr>) ep req vals = handle c ep req vals"
proof (cases "ep = ''index'' \<or> ep = ''index_mdplain''")
  case True
  with assms obtain x where "vals = Some x" by auto
  with True show ?thesis
    by (auto simp: handle_def getattr_on_def apply_plain_values)
next
  case False
  then show ?thesis
    by (simp add: handle_def getattr_on_def handler_frames)
qed

lemma dispatch_frame:
  assumes "\<not> (bind_to_environ c req = Inr () \<and>
              (url_match c req = Inr (''index'', None) \<or>
               url_match c req = Inr (''index_mdplain'', None)))"
  shows "dispatch (c\<lparr>refresh := r\<rparr>) req w = dispatch c req w"
proof (cases "bind_to_environ c req")
  case (Inl e)
  then show ?thesis
    using dispatch_bind_fails [of c req e w] dispatch_bind_fails [of "c\<lparr>refresh := r\<rparr>" req e w]
    by simp
next
  case (Inr u)
  then have b: "bind_to_environ c req = Inr ()" by simp
  show ?thesis
  proof (cases "url_match c req")
    case (Inl e)
    then show ?thesis
      using b dispatch_match_fails [of c req e w]
        dispatch_match_fails [of "c\<lparr>refresh := r\<rparr>" req e w]
      by simp
  next
    case (Inr m)
    obtain ep vals where m: "m = (ep, vals)" by (cases m)
    with Inr have u: "url_match c req = Inr (ep, vals)" by simp
    with assms b have "\<not> ((ep = ''index'' \<or> ep = ''index_mdplain'') \<and> vals = None)" by auto
    then have "handle (c\<lparr>refresh := r\<rparr>) ep req vals = handle c ep req vals"
      by (rule handle_frame)
    with b u show ?thesis
      using dispatch_matched [of c req ep vals w]
        dispatch_matched [of "c\<lparr>refresh := r\<rparr>" req ep vals w]
      by simp
  qed
qed

lemma dispatch_index_run:
  assumes "(ep, ns, template) = (''index'', ''v'', ''viewer.html'') \<or>
           (ep, ns, template) = (''index_mdplain'', ''m'', ''plain.html'')"
    and "bind_to_environ c req = Inr ()"
    and "url_match c req = Inr (ep, None)"
    and "refresh c (provider w) = (Inr (), p1)"
    and "get_tree c p1 = (Inr t, p2)"
    and "get_template c ''tree.md'' = Inr ()"
    and "render c ''tree.md'' (Listing t ns ''/'') = Inr md"
    and "get_template c template = Inr ()"
    and "parse c md = Inr parsed"
    and "render c template (Content parsed) = Inr page"
  shows "dispatch c req w =
     (Inr (Resp \<lparr>status = 200, mimetype = Some ''text/html'', body = page, headers = []\<rparr>),
      \<lparr>provider = p2,
         calls = calls w @ [BindToEnviron, Match, Refresh, GetTree, GetTemplate ''tree.md'',
                            Render ''tree.md'' (Listing t ns ''/''),
                            GetTemplate template, Parse md,
                            Render template (Content parsed)]\<rparr>)"
proof -
  let ?w = "\<lparr>provider = provider w, calls = calls w @ [BindToEnviron, Match]\<rparr>"
  from assms(4) have r: "refresh c (provider ?w) = (Inr (), p1)" by simp
  from assms(1) show ?thesis
  proof
    assume "(ep, ns, template) = (''index'', ''v'', ''viewer.html'')"
    then have e: "ep = ''index''" "ns = ''v''" "template = ''viewer.html''" by simp_all
    from on_index_run [OF r assms(5) assms(6) assms(7) [unfolded e] assms(8) [unfolded e]
        assms(9) assms(10) [unfolded e], of req]
    show ?thesis
      using assms(2) assms(3) by (simp add: dispatch_matched e handle_index)
  next
    assume "(ep, ns, template) = (''index_mdplain'', ''m'', ''plain.html'')"
    then have e: "ep = ''index_mdplain''" "ns = ''m''" "template = ''plain.html''" by simp_all
    from on_index_mdplain_run [OF r assms(5) assms(6) assms(7) [unfolded e] assms(8) [unfolded e]
        assms(9) assms(10) [unfolded e], of req]
    show ?thesis
      using assms(2) assms(3) by (simp add: dispatch_matched e handle_index_mdplain)
  qed
qed

lemma dispatch_index_refresh_fails:
  assumes "bind_to_environ c req = Inr ()"
    and "url_match c req = Inr (''index'', None) \<or> url_match c req = Inr (''index_mdplain'', None)"
    and "refresh c (provider w) = (Inl e, p1)"
  shows "snd (dispatch c req w) =
           \<lparr>provider = p1, calls = calls w @ [BindToEnviron, Match, Refresh]\<rparr>"
proof -
  let ?w = "\<lparr>provider = provider w, calls = calls w @ [BindToEnviron, Match]\<rparr>"
  from assms(3) have r: "refresh c (provider ?w) = (Inl e, p1)" by simp
  from assms(2) show ?thesis
  proof
    assume u: "url_match c req = Inr (''index'', None)"
    from on_index_refresh_fails [OF r, of req] show ?thesis
      by (simp add: dispatch_matched_world [OF assms(1) u] handle_index)
  next
    assume u: "url_match c req = Inr (''index_mdplain'', None)"
    from on_index_mdplain_refresh_fails [OF r, of req] show ?thesis
      by (simp add: dispatch_matched_world [OF assms(1) u] handle_index_mdplain)
  qed
qed

lemma dispatch_refresh_count:
  "calls (snd (dispatch c req w)) = calls w @ new_calls (dispatch c req) w \<and>
   count_list (new_calls (dispatch c req) w) Refresh =
     (if bind_to_environ c req = Inr () \<and>
         (url_match c req = Inr (''index'', None) \<or>
          url_match c req = Inr (''index_mdplain'', None))
      then 1 else 0) \<and>
   (bind_to_environ c req = Inr () \<and>
    (url_match c req = Inr (''index'', None) \<or> url_match c req = Inr (''index_mdplain'', None))
    \<longrightarrow> take 3 (new_calls (dispatch c req) w) = [BindToEnviron, Match, Refresh])"
proof (cases "bind_to_environ c req")
  case (Inl e)
  from dispatch_bind_fails [OF Inl, of w] Inl show ?thesis by (simp add: new_calls_def)
next
  case (Inr u)
  then have b: "bind_to_environ c req = Inr ()" by simp
  show ?thesis
  proof (cases "url_match c req")
    case (Inl e)
    from dispatch_match_fails [OF b Inl, of w] Inl show ?thesis by (simp add: new_calls_def)
  next
    case (Inr m)
    obtain ep vals where m: "m = (ep, vals)" by (cases m)
    with Inr have u: "url_match c req = Inr (ep, vals)" by simp
    define w2 where "w2 = \<lparr>provider = provider w, calls = calls w @ [BindToEnviron, Match]\<rparr>"
    define l where "l = new_calls (handle c ep req vals) w2"
    from dispatch_matched_calls [OF b u, of w]
    have d: "calls (snd (dispatch c req w)) = calls w @ (new_calls (dispatch c req) w)" "(new_calls (dispatch c req) w) = BindToEnviron # Match # l"
      by (simp_all add: l_def w2_def)
    show ?thesis
    proof (cases "(ep = ''index'' \<or> ep = ''index_mdplain'') \<and> vals = None")
      case True
      then have "adds one_refresh_first (handle c ep req vals)"
        using once_on_index [of c req] once_on_index_mdplain [of c req]
        by (auto simp: handle_index handle_index_mdplain)
      then have "one_refresh_first l" unfolding l_def by (simp add: adds_new_calls)
      then have "count_list l Refresh = 1 \<and> take 1 l = [Refresh]" by (rule count_one_refresh)
      with d b u True show ?thesis by auto
    next
      case False
      then have "adds no_refresh (handle c ep req vals)" by (rule quiet_handle)
      then have "no_refresh l" unfolding l_def by (simp add: adds_new_calls)
      then have "count_list l Refresh = 0" by (rule count_no_refresh)
      with d b u False show ?thesis by auto
    qed
  qed
qed

text \<open>
  C8. A dispatched request keeps the calls made before it. When the URL map matches it to
  the endpoint of \<open>/v/\<close> or of \<open>/m/\<close>, the handler runs the provider's \<open>refresh\<close> once,
  as the first call after the match; the tree is then read from the provider as
  \<open>refresh\<close> left it, and the listing of that tree is rendered, parsed and put into the
  template of the namespace; when \<open>refresh\<close> raises, nothing is read or rendered. In
  every other case (any other endpoint, a failed match) \<open>refresh\<close> is never called, and
  the reply and the provider do not depend on what \<open>refresh\<close> would do. The rules
  \<open>/v/\<close> and \<open>/m/\<close> are the only rules of the URL map with these two endpoints.
\<close>

theorem refresh_only_on_index_routes:
  "calls (snd (dispatch c req w)) = calls w @ new_calls (dispatch c req) w \<and>
   count_list (new_calls (dispatch c req) w) Refresh =
     (if bind_to_environ c req = Inr () \<and>
         (url_match c req = Inr (''index'', None) \<or>
          url_match c req = Inr (''index_mdplain'', None))
      then 1 else 0) \<and>
   (bind_to_environ c req = Inr () \<and>
    (url_match c req = Inr (''index'', None) \<or> url_match c req = Inr (''index_mdplain'', None))
    \<longrightarrow> take 3 (new_calls (dispatch c req) w) = [BindToEnviron, Match, Refresh]) \<and>
   (map_of url_map rule = Some ''index'' \<longleftrightarrow> rule = ''/v/'') \<and>
   (map_of url_map rule = Some ''index_mdplain'' \<longleftrightarrow> rule = ''/m/'') \<and>
   (((ep, ns, template) = (''index'', ''v'', ''viewer.html'') \<or>
     (ep, ns, template) = (''index_mdplain'', ''m'', ''plain.html'')) \<and>
    bind_to_environ c req = Inr () \<and>
    url_match c req = Inr (ep, None) \<and>
    refresh c (provider w) = (Inr (), p1) \<and>
    get_tree c p1 = (Inr t, p2) \<and>
    get_template c ''tree.md'' = Inr () \<and>
    render c ''tree.md'' (Listing t ns ''/'') = Inr md \<and>
    get_template c template = Inr () \<and>
    parse c md = Inr parsed \<and>
    render c template (Content parsed) = Inr page \<longrightarrow>
      dispatch c req w =
        (Inr (Resp \<lparr>status = 200, mimetype = Some ''text/html'', body = page, headers = []\<rparr>),
         \<lparr>provider = p2,
            calls = calls w @ [BindToEnviron, Match, Refresh, GetTree, GetTemplate ''tree.md'',
                               Render ''tree.md'' (Listing t ns ''/''),
                               GetTemplate template, Parse md,
                               Render template (Content parsed)]\<rparr>)) \<and>
   (bind_to_environ c req = Inr () \<and>
    (url_match c req = Inr (''index'', None) \<or> url_match c req = Inr (''index_mdplain'', None)) \<and>
    refresh c (provider w) = (Inl e, q1) \<longrightarrow>
      snd (dispatch c req w) =
        \<lparr>provider = q1, calls = calls w @ [BindToEnviron, Match, Refresh]\<rparr>) \<and>
   (\<not> (bind_to_environ c req = Inr () \<and>
        (url_match c req = Inr (''index'', None) \<or>
         url_match c req = Inr (''index_mdplain'', None))) \<longrightarrow>
      dispatch (c\<lparr>refresh := r\<rparr>) req w = dispatch c req w)"
proof -
  note count = dispatch_refresh_count [of c req w]
  note c1 = count [THEN conjunct1]
  note c2 = count [THEN conjunct2, THEN conjunct1]
  note c3 = count [THEN conjunct2, THEN conjunct2]
  note u1 = url_map_index [of rule]
  note u2 = url_map_index_mdplain [of rule]
  have run: "((ep, ns, template) = (''index'', ''v'', ''viewer.html'') \<or>
     (ep, ns, template) = (''index_mdplain'', ''m'', ''plain.html'')) \<and>
    bind_to_environ c req = Inr () \<and>
    url_match c req = Inr (ep, None) \<and>
    refresh c (provider w) = (Inr (), p1) \<and>
    get_tree c p1 = (Inr t, p2) \<and>
    get_template c ''tree.md'' = Inr () \<and>
    render c ''tree.md'' (Listing t ns ''/'') = Inr md \<and>
    get_template c template = Inr () \<and>
    parse c md = Inr parsed \<and>
    render c template (Content parsed) = Inr page \<longrightarrow>
      dispatch c req w =
        (Inr (Resp \<lparr>status = 200, mimetype = Some ''text/html'', body = page, headers = []\<rparr>),
         \<lparr>provider = p2,
            calls = calls w @ [BindToEnviron, Match, Refresh, GetTree, GetTemplate ''tree.md'',
                               Render ''tree.md'' (Listing t ns ''/''),
                               GetTemplate template, Parse md,
                               Render template (Content parsed)]\<rparr>)"
    by (intro impI, elim conjE, rule dispatch_index_run [where ?p1.0 = p1]; assumption)
  have fails: "bind_to_environ c req = Inr () \<and>
    (url_match c req = Inr (''index'', None) \<or> url_match c req = Inr (''index_mdplain'', None)) \<and>
    refresh c (provider w) = (Inl e, q1) \<longrightarrow>
      snd (dispatch c req w) =
        \<lparr>provider = q1, calls = calls w @ [BindToEnviron, Match, Refresh]\<rparr>"
    by (intro impI, elim conjE, rule dispatch_index_refresh_fails [where e = e]; assumption)
  have frame: "\<not> (bind_to_environ c req = Inr () \<and>
        (url_match c req = Inr (''index'', None) \<or>
         url_match c req = Inr (''index_mdplain'', None))) \<longrightarrow>
      dispatch (c\<lparr>refresh := r\<rparr>) req w = dispatch c req w"
    by (intro impI, rule dispatch_frame)
  from c1 c2 c3 u1 u2 run fails frame show ?thesis
    by - (intro conjI; assumption)
qed

theorem refresh_only_on_index_routes_witness:
  "bind_to_environ sample \<lparr>req_path = ''/v/'', req_args = []\<rparr> = Inr () \<and>
   url_match sample \<lparr>req_path = ''/v/'', req_args = []\<rparr> = Inr (''index'', None) \<and>
   refresh sample (0::nat) = (Inr (), 1) \<and>
   get_tree sample (1::nat) = (Inr sample_tree, 1) \<and>
   count_list (new_calls (dispatch sample \<lparr>req_path = ''/v/'', req_args = []\<rparr>)
                 \<lparr>provider = 0, calls = []\<rparr>) Refresh = 1 \<and>
   take 3 (new_calls (dispatch sample \<lparr>req_path = ''/v/'', req_args = []\<rparr>)
                 \<lparr>provider = 0, calls = []\<rparr>) = [BindToEnviron, Match, Refresh] \<and>
   dispatch sample \<lparr>req_path = ''/v/'', req_args = []\<rparr> \<lparr>provider = 0, calls = []\<rparr> =
     (Inr (Resp \<lparr>status = 200, mimetype = Some ''text/html'',
                   body = ''viewer.html:v/ docs; v/ readme.md; v/ empty; v/ bare; '',
                   headers = []\<rparr>),
      \<lparr>provider = 1,
         calls = [BindToEnviron, Match, Refresh, GetTree, GetTemplate ''tree.md'',
                  Render ''tree.md'' (Listing sample_tree ''v'' ''/''),
                  GetTemplate ''viewer.html'',
                  Parse ''v/ docs; v/ readme.md; v/ empty; v/ bare; '',
                  Render ''viewer.html''
                    (Content ''v/ docs; v/ readme.md; v/ empty; v/ bare; '')]\<rparr>) \<and>
   url_match sample \<lparr>req_path = ''/m/'', req_args = []\<rparr> = Inr (''index_mdplain'', None) \<and>
   fst (dispatch sample \<lparr>req_path = ''/m/'', req_args = []\<rparr> \<lparr>provider = 4, calls = []\<rparr>) =
     Inr (Resp \<lparr>status = 200, mimetype = Some ''text/html'',
                  body = ''plain.html:m/ docs; m/ readme.md; m/ empty; m/ bare; '',
                  headers = []\<rparr>) \<and>
   provider (snd (dispatch sample \<lparr>req_path = ''/m/'', req_args = []\<rparr>
                    \<lparr>provider = 4, calls = []\<rparr>)) = 5 \<and>
   refresh (sample\<lparr>refresh := \<lambda>p. (Inl (Exception ''OSError''), p)\<rparr>) (0::nat) =
     (Inl (Exception ''OSError''), 0) \<and>
   snd (dispatch (sample\<lparr>refresh := \<lambda>p. (Inl (Exception ''OSError''), p)\<rparr>)
          \<lparr>req_path = ''/v/'', req_args = []\<rparr> \<lparr>provider = 0, calls = []\<rparr>) =
     \<lparr>provider = 0, calls = [BindToEnviron, Match, Refresh]\<rparr> \<and>
   url_match sample \<lparr>req_path = ''/v/docs'', req_args = []\<rparr> = Inr (''view'', Some ''docs'') \<and>
   count_list (new_calls (dispatch sample \<lparr>req_path = ''/v/docs'', req_args = []\<rparr>)
                 \<lparr>provider = 0, calls = []\<rparr>) Refresh = 0 \<and>
   dispatch (sample\<lparr>refresh := \<lambda>p. (Inr (), p + 7)\<rparr>)
       \<lparr>req_path = ''/v/docs'', req_args = []\<rparr> \<lparr>provider = 0, calls = []\<rparr> =
     dispatch sample \<lparr>req_path = ''/v/docs'', req_args = []\<rparr> \<lparr>provider = 0, calls = []\<rparr> \<and>
   provider (snd (dispatch sample \<lparr>req_path = ''/v/docs'', req_args = []\<rparr>
                    \<lparr>provider = 0, calls = []\<rparr>)) = 0"
proof -
  have docs: "provider (snd (dispatch sample \<lparr>req_path = ''/v/docs'', req_args = []\<rparr>
                    \<lparr>provider = 0, calls = []\<rparr>)) = 0"
    by (simp add: run_defs on_view_def handle_common_def render_tree_def render_markdown_def
          get_children_def parts_of_def get_children_key_def sample_def sample_match_def
          sample_tree_def)
  from
    refresh_only_on_index_routes
      [where c = sample and req = "\<lparr>req_path = ''/v/'', req_args = []\<rparr>"
         and w = "\<lparr>provider = 0, calls = []\<rparr>" and rule = "''/v/''"
         and ep = "''index''" and ns = "''v''" and template = "''viewer.html''"
         and ?p1.0 = 1 and t = sample_tree and ?p2.0 = 1
         and md = "''v/ docs; v/ readme.md; v/ empty; v/ bare; ''"
         and parsed = "''v/ docs; v/ readme.md; v/ empty; v/ bare; ''"
         and page = "''viewer.html:v/ docs; v/ readme.md; v/ empty; v/ bare; ''"]
    refresh_only_on_index_routes
      [where c = sample and req = "\<lparr>req_path = ''/m/'', req_args = []\<rparr>"
         and w = "\<lparr>provider = 4, calls = []\<rparr>" and rule = "''/m/''"
         and ep = "''index_mdplain''" and ns = "''m''" and template = "''plain.html''"
         and ?p1.0 = 5 and t = sample_tree and ?p2.0 = 5
         and md = "''m/ docs; m/ readme.md; m/ empty; m/ bare; ''"
         and parsed = "''m/ docs; m/ readme.md; m/ empty; m/ bare; ''"
         and page = "''plain.html:m/ docs; m/ readme.md; m/ empty; m/ bare; ''"]
    refresh_only_on_index_routes
      [where c = "sample\<lparr>refresh := \<lambda>p. (Inl (Exception ''OSError''), p)\<rparr>"
         and req = "\<lparr>req_path = ''/v/'', req_args = []\<rparr>"
         and w = "\<lparr>provider = 0, calls = []\<rparr>" and e = "Exception ''OSError''"
         and ?q1.0 = 0]
    refresh_only_on_index_routes
      [where c = sample and req = "\<lparr>req_path = ''/v/docs'', req_args = []\<rparr>"
         and w = "\<lparr>provider = 0, calls = []\<rparr>" and r = "\<lambda>p. (Inr (), p + 7)"]
    docs
  show ?thesis
    by (simp add: sample_def sample_match_def sample_tree_def)
qed

section \<open>Not found\<close>

text \<open>
  C6. When no rule of the URL map matches (the match raises \<open>NotFound\<close>), the dispatcher
  returns status 404, mimetype \<open>text/plain\<close> and body \<open>Not found\<close>; when the resolver
  finds no directory for the path, \<open>render_tree\<close> returns a response with the same status,
  mimetype and body, and renders nothing.
\<close>

theorem not_found_shape:
  "(bind_to_environ c req = Inr () \<and> url_match c req = Inl (NotFound d) \<longrightarrow>
      dispatch c req w =
        (Inr (Resp \<lparr>status = 404, mimetype = Some ''text/plain'', body = ''Not found'',
                     headers = []\<rparr>),
         \<lparr>provider = provider w, calls = calls w @ [BindToEnviron, Match]\<rparr>)) \<and>
   (get_tree c (provider w) = (Inr t, p') \<and> get_children t f = None \<longrightarrow>
      render_tree c template prefix f w =
        (Inr (Resp \<lparr>status = 404, mimetype = Some ''text/plain'', body = ''Not found'',
                     headers = []\<rparr>),
         \<lparr>provider = p', calls = calls w @ [GetTree]\<rparr>))"
proof (intro conjI impI)
  assume "bind_to_environ c req = Inr () \<and> url_match c req = Inl (NotFound d)"
  then show "dispatch c req w =
        (Inr (Resp \<lparr>status = 404, mimetype = Some ''text/plain'', body = ''Not found'',
                     headers = []\<rparr>),
         \<lparr>provider = provider w, calls = calls w @ [BindToEnviron, Match]\<rparr>)"
    using dispatch_match_fails [of c req "NotFound d" w] by simp
next
  assume "get_tree c (provider w) = (Inr t, p') \<and> get_children t f = None"
  then show "render_tree c template prefix f w =
        (Inr (Resp \<lparr>status = 404, mimetype = Some ''text/plain'', body = ''Not found'',
                     headers = []\<rparr>),
         \<lparr>provider = p', calls = calls w @ [GetTree]\<rparr>)"
    by (simp add: render_tree_def and_then_def state_call_def return_def)
qed

theorem not_found_shape_witness:
  "bind_to_environ sample \<lparr>req_path = ''/nowhere'', req_args = []\<rparr> = Inr () \<and>
   url_match sample \<lparr>req_path = ''/nowhere'', req_args = []\<rparr> = Inl (NotFound '''') \<and>
   fst (dispatch sample \<lparr>req_path = ''/nowhere'', req_args = []\<rparr> \<lparr>provider = 0, calls = []\<rparr>) =
     Inr (Resp \<lparr>status = 404, mimetype = Some ''text/plain'', body = ''Not found'', headers = []\<rparr>) \<and>
   get_tree sample (0::nat) = (Inr sample_tree, 0) \<and> get_children sample_tree ''missing'' = None \<and>
   fst (render_tree sample ''viewer.html'' ''v'' ''missing'' \<lparr>provider = 0, calls = []\<rparr>) =
     Inr (Resp \<lparr>status = 404, mimetype = Some ''text/plain'', body = ''Not found'', headers = []\<rparr>)"
  using not_found_shape [of sample "\<lparr>req_path = ''/nowhere'', req_args = []\<rparr>" "''''"
          "\<lparr>provider = 0, calls = []\<rparr>" sample_tree 0 "''missing''" "''viewer.html''" "''v''"]
  by (simp add: sample_def sample_match_def get_children_def parts_of_def sample_tree_def)

section \<open>Failures raised by a handler\<close>

text \<open>
  C7. When the handler of a matched request raises an \<open>HTTPException\<close> that is not a
  \<open>NotFound\<close>, the dispatcher returns that very exception as its reply, with its status and
  its body.
\<close>

theorem http_errors_pass_through:
  assumes "bind_to_environ c req = Inr ()"
    and "url_match c req = Inr (ep, vals)"
    and "handle c ep req vals \<lparr>provider = provider w, calls = calls w @ [BindToEnviron, Match]\<rparr>
           = (Inl (HTTPException code b), w')"
  shows "dispatch c req w = (Inr (Exc (HTTPException code b)), w') \<and>
         reply_status (Exc (HTTPException code b)) = code"
  using assms by (simp add: dispatch_matched)

theorem http_errors_pass_through_witness:
  "bind_to_environ sample \<lparr>req_path = ''/t/teapot'', req_args = []\<rparr> = Inr () \<and>
   url_match sample \<lparr>req_path = ''/t/teapot'', req_args = []\<rparr> = Inr (''mdtext'', Some ''teapot'') \<and>
   handle sample ''mdtext'' \<lparr>req_path = ''/t/teapot'', req_args = []\<rparr> (Some ''teapot'')
       \<lparr>provider = 0, calls = [BindToEnviron, Match]\<rparr>
     = (Inl (HTTPException 418 ''teapot''),
        \<lparr>provider = 0, calls = [BindToEnviron, Match, GetContent ''teapot'' (Some True)]\<rparr>) \<and>
   dispatch sample \<lparr>req_path = ''/t/teapot'', req_args = []\<rparr> \<lparr>provider = 0, calls = []\<rparr>
     = (Inr (Exc (HTTPException 418 ''teapot'')),
        \<lparr>provider = 0, calls = [BindToEnviron, Match, GetContent ''teapot'' (Some True)]\<rparr>)"
proof -
  have b: "bind_to_environ sample \<lparr>req_path = ''/t/teapot'', req_args = []\<rparr> = Inr ()"
    by (simp add: sample_def)
  have u: "url_match sample \<lparr>req_path = ''/t/teapot'', req_args = []\<rparr>
             = Inr (''mdtext'', Some ''teapot'')"
    by (simp add: sample_def sample_match_def)
  have h: "handle sample ''mdtext'' \<lparr>req_path = ''/t/teapot'', req_args = []\<rparr> (Some ''teapot'')
       \<lparr>provider = provider \<lparr>provider = 0::nat, calls = []\<rparr>,
          calls = calls \<lparr>provider = 0::nat, calls = []\<rparr> @ [BindToEnviron, Match]\<rparr>
     = (Inl (HTTPException 418 ''teapot''),
        \<lparr>provider = 0, calls = [BindToEnviron, Match, GetContent ''teapot'' (Some True)]\<rparr>)"
    by (simp add: run_defs on_mdtext_def sample_def)
  from http_errors_pass_through [OF b u h] b u h show ?thesis by simp
qed

lemma app_call_passed_on:
  "shared_data c req = Inr None \<Longrightarrow>
   app_call c req w = dispatch c req \<lparr>provider = provider w, calls = calls w @ [SharedData]\<rparr>"
  by (cases "dispatch c req \<lparr>provider = provider w, calls = calls w @ [SharedData]\<rparr>")
     (simp add: app_call_def shared_data_middleware_def wsgi_app_def and_then_def pure_call_def
        return_def split: sum.splits)

text \<open>
  C2. When the handler of a matched request raises a failure that carries no HTTP status,
  \<open>dispatch\<close> does not catch it and the method \<open>wsgi_app\<close> does not either. A request
  reaches the handler through \<open>__call__\<close> only when the static middleware passes it on,
  and then \<open>__call__\<close> does not catch the failure either: it reaches the caller of the
  application unchanged. There the top-level handler answers with the server error response
  of the server, whose status is not 404 and which is not the not-found response.
\<close>

theorem other_failures_propagate:
  assumes "bind_to_environ c req = Inr ()"
    and "url_match c req = Inr (ep, vals)"
    and "handle c ep req vals \<lparr>provider = provider w, calls = calls w @ [BindToEnviron, Match]\<rparr>
           = (Inl (Exception n), w')"
  shows "dispatch c req w = (Inl (Exception n), w') \<and>
         wsgi_app c req w = (Inl (Exception n), w') \<and>
         (shared_data c req = Inr None \<and>
          w = \<lparr>provider = provider w0, calls = calls w0 @ [SharedData]\<rparr> \<longrightarrow>
            app_call c req w0 = (Inl (Exception n), w') \<and>
            top_level_handler server_error (fst (app_call c req w0)) = Resp server_error \<and>
            (is_server_error server_error \<longrightarrow>
               reply_status (top_level_handler server_error (fst (app_call c req w0))) \<noteq> 404 \<and>
               top_level_handler server_error (fst (app_call c req w0)) \<noteq>
                 Resp \<lparr>status = 404, mimetype = Some ''text/plain'', body = ''Not found'',
                        headers = []\<rparr>))"
proof -
  from assms have d: "dispatch c req w = (Inl (Exception n), w')"
    by (simp add: dispatch_matched)
  then have a: "wsgi_app c req w = (Inl (Exception n), w')"
    by (simp add: wsgi_app_def and_then_def)
  have "app_call c req w0 = (Inl (Exception n), w')"
    if "shared_data c req = Inr None"
      and "w = \<lparr>provider = provider w0, calls = calls w0 @ [SharedData]\<rparr>"
    using that d app_call_passed_on [of c req w0] by simp
  with d a show ?thesis
    by (auto simp: top_level_handler_def is_server_error_def)
qed

theorem other_failures_propagate_witness:
  "shared_data sample \<lparr>req_path = ''/t/broken'', req_args = []\<rparr> = Inr None \<and>
   bind_to_environ sample \<lparr>req_path = ''/t/broken'', req_args = []\<rparr> = Inr () \<and>
   url_match sample \<lparr>req_path = ''/t/broken'', req_args = []\<rparr>
     = Inr (''mdtext'', Some ''broken'') \<and>
   is_server_error \<lparr>status = 500, mimetype = None, body = [], headers = []\<rparr> \<and>
   app_call sample \<lparr>req_path = ''/t/broken'', req_args = []\<rparr> \<lparr>provider = 0, calls = []\<rparr>
     = (Inl (Exception ''OSError''),
        \<lparr>provider = 0,
           calls = [SharedData, BindToEnviron, Match, GetContent ''broken'' (Some True)]\<rparr>) \<and>
   reply_status
     (top_level_handler \<lparr>status = 500, mimetype = None, body = [], headers = []\<rparr>
        (fst (app_call sample \<lparr>req_path = ''/t/broken'', req_args = []\<rparr>
                \<lparr>provider = 0, calls = []\<rparr>))) = 500 \<and>
   app_call sample \<lparr>req_path = ''/static/app.js'', req_args = []\<rparr> \<lparr>provider = 0, calls = []\<rparr>
     = (Inr (Resp \<lparr>status = 200, mimetype = Some ''text/javascript'', body = ''//'',
                   headers = []\<rparr>),
        \<lparr>provider = 0, calls = [SharedData]\<rparr>) \<and>
   app_call sample \<lparr>req_path = ''/static/gone.js'', req_args = []\<rparr> \<lparr>provider = 0, calls = []\<rparr>
     = (Inl (Exception ''AttributeError''),
        \<lparr>provider = 0, calls = [SharedData, BindToEnviron, Match]\<rparr>)"
proof -
  have s: "shared_data sample \<lparr>req_path = ''/t/broken'', req_args = []\<rparr> = Inr None"
    by (simp add: sample_def)
  have b: "bind_to_environ sample \<lparr>req_path = ''/t/broken'', req_args = []\<rparr> = Inr ()"
    by (simp add: sample_def)
  have u: "url_match sample \<lparr>req_path = ''/t/broken'', req_args = []\<rparr>
             = Inr (''mdtext'', Some ''broken'')"
    by (simp add: sample_def sample_match_def)
  have h: "handle sample ''mdtext'' \<lparr>req_path = ''/t/broken'', req_args = []\<rparr> (Some ''broken'')
       \<lparr>provider = provider \<lparr>provider = 0::nat, calls = [SharedData]\<rparr>,
          calls = calls \<lparr>provider = 0::nat, calls = [SharedData]\<rparr> @ [BindToEnviron, Match]\<rparr>
     = (Inl (Exception ''OSError''),
        \<lparr>provider = 0,
           calls = [SharedData, BindToEnviron, Match, GetContent ''broken'' (Some True)]\<rparr>)"
    by (simp add: run_defs on_mdtext_def sample_def)
  have e: "is_server_error \<lparr>status = 500, mimetype = None, body = [], headers = []\<rparr>"
    by (simp add: is_server_error_def)
  have js: "app_call sample \<lparr>req_path = ''/static/app.js'', req_args = []\<rparr>
       \<lparr>provider = 0, calls = []\<rparr>
     = (Inr (Resp \<lparr>status = 200, mimetype = Some ''text/javascript'', body = ''//'',
                   headers = []\<rparr>),
        \<lparr>provider = 0, calls = [SharedData]\<rparr>)"
    by (simp add: app_call_def shared_data_middleware_def and_then_def pure_call_def return_def
          sample_def)
  have gone: "app_call sample \<lparr>req_path = ''/static/gone.js'', req_args = []\<rparr>
       \<lparr>provider = 0, calls = []\<rparr>
     = (Inl (Exception ''AttributeError''),
        \<lparr>provider = 0, calls = [SharedData, BindToEnviron, Match]\<rparr>)"
    by (simp add: app_call_def shared_data_middleware_def wsgi_app_def run_defs sample_def
          sample_match_def)
  from other_failures_propagate [OF b u h,
         where ?w0.0 = "\<lparr>provider = 0, calls = []\<rparr>"
           and server_error = "\<lparr>status = 500, mimetype = None, body = [], headers = []\<rparr>"]
       s b u e js gone
  show ?thesis by (simp add: top_level_handler_def)
qed

section \<open>The raw text route\<close>

lemma url_map_mdtext: "map_of url_map ''/t/<path:filename>'' = Some ''mdtext''"
  by (simp add: url_map_def)

lemma handle_mdtext: "handle c ''mdtext'' req (Some f) = on_mdtext c req f"
  by (simp add: handle_def getattr_on_def apply_handler_def)

lemma on_mdtext_run:
  "on_mdtext c req f w =
     (case get_content c f (Some True) (provider w) of
        (Inl e, p') \<Rightarrow> (Inl e, \<lparr>provider = p', calls = calls w @ [GetContent f (Some True)]\<rparr>)
      | (Inr s, p') \<Rightarrow>
          (Inr (Resp \<lparr>status = 200, mimetype = Some ''text/plain'', body = s, headers = []\<rparr>),
           \<lparr>provider = p', calls = calls w @ [GetContent f (Some True)]\<rparr>))"
  by (simp add: on_mdtext_def and_then_def state_call_def return_def split: prod.splits sum.splits)

text \<open>
  C9. The handler of \<open>/t/<path>\<close> makes exactly one call, \<open>get_content(path, raw=True)\<close>:
  it asks neither \<open>is_file\<close> nor for the tree. When the provider returns a string the
  response is that string with status 200 and mimetype \<open>text/plain\<close>; when the provider
  raises, the handler raises the same failure and never answers 404 itself. What the
  client then gets is decided by the \<open>except\<close> clauses of the dispatcher.
\<close>

theorem raw_text_route:
  "map_of url_map ''/t/<path:filename>'' = Some ''mdtext'' \<and>
   new_calls (handle c ''mdtext'' req (Some f)) w = [GetContent f (Some True)] \<and>
   handle c ''mdtext'' req (Some f) w =
     (case get_content c f (Some True) (provider w) of
        (Inl e, p') \<Rightarrow> (Inl e, \<lparr>provider = p', calls = calls w @ [GetContent f (Some True)]\<rparr>)
      | (Inr s, p') \<Rightarrow>
          (Inr (Resp \<lparr>status = 200, mimetype = Some ''text/plain'', body = s, headers = []\<rparr>),
           \<lparr>provider = p', calls = calls w @ [GetContent f (Some True)]\<rparr>)) \<and>
   (\<forall>r. fst (handle c ''mdtext'' req (Some f) w) = Inr (Resp r) \<longrightarrow> status r \<noteq> 404) \<and>
   (bind_to_environ c req = Inr () \<and> url_match c req = Inr (''mdtext'', Some f) \<longrightarrow>
      dispatch c req w =
        (case get_content c f (Some True) (provider w) of
           (Inl (NotFound d), p') \<Rightarrow>
             (Inr (Resp \<lparr>status = 404, mimetype = Some ''text/plain'', body = ''Not found'',
                          headers = []\<rparr>),
              \<lparr>provider = p', calls = calls w @ [BindToEnviron, Match, GetContent f (Some True)]\<rparr>)
         | (Inl (HTTPException code b), p') \<Rightarrow>
             (Inr (Exc (HTTPException code b)),
              \<lparr>provider = p', calls = calls w @ [BindToEnviron, Match, GetContent f (Some True)]\<rparr>)
         | (Inl (Exception n), p') \<Rightarrow>
             (Inl (Exception n),
              \<lparr>provider = p', calls = calls w @ [BindToEnviron, Match, GetContent f (Some True)]\<rparr>)
         | (Inr s, p') \<Rightarrow>
             (Inr (Resp \<lparr>status = 200, mimetype = Some ''text/plain'', body = s, headers = []\<rparr>),
              \<lparr>provider = p', calls = calls w @ [BindToEnviron, Match, GetContent f (Some True)]\<rparr>)))"
proof (intro conjI allI impI)
  show "map_of url_map ''/t/<path:filename>'' = Some ''mdtext''" by (rule url_map_mdtext)
next
  show "new_calls (handle c ''mdtext'' req (Some f)) w = [GetContent f (Some True)]"
    by (simp add: handle_mdtext on_mdtext_run new_calls_def split: prod.splits sum.splits)
next
  show "handle c ''mdtext'' req (Some f) w =
     (case get_content c f (Some True) (provider w) of
        (Inl e, p') \<Rightarrow> (Inl e, \<lparr>provider = p', calls = calls w @ [GetContent f (Some True)]\<rparr>)
      | (Inr s, p') \<Rightarrow>
          (Inr (Resp \<lparr>status = 200, mimetype = Some ''text/plain'', body = s, headers = []\<rparr>),
           \<lparr>provider = p', calls = calls w @ [GetContent f (Some True)]\<rparr>))"
    by (simp only: handle_mdtext on_mdtext_run)
next
  fix r assume "fst (handle c ''mdtext'' req (Some f) w) = Inr (Resp r)"
  then show "status r \<noteq> 404"
    by (auto simp: handle_mdtext on_mdtext_run split: prod.splits sum.splits)
next
  assume "bind_to_environ c req = Inr () \<and> url_match c req = Inr (''mdtext'', Some f)"
  then show "dispatch c req w =
        (case get_content c f (Some True) (provider w) of
           (Inl (NotFound d), p') \<Rightarrow>
             (Inr (Resp \<lparr>status = 404, mimetype = Some ''text/plain'', body = ''Not found'',
                          headers = []\<rparr>),
              \<lparr>provider = p', calls = calls w @ [BindToEnviron, Match, GetContent f (Some True)]\<rparr>)
         | (Inl (HTTPException code b), p') \<Rightarrow>
             (Inr (Exc (HTTPException code b)),
              \<lparr>provider = p', calls = calls w @ [BindToEnviron, Match, GetContent f (Some True)]\<rparr>)
         | (Inl (Exception n), p') \<Rightarrow>
             (Inl (Exception n),
              \<lparr>provider = p', calls = calls w @ [BindToEnviron, Match, GetContent f (Some True)]\<rparr>)
         | (Inr s, p') \<Rightarrow>
             (Inr (Resp \<lparr>status = 200, mimetype = Some ''text/plain'', body = s, headers = []\<rparr>),
              \<lparr>provider = p', calls = calls w @ [BindToEnviron, Match, GetContent f (Some True)]\<rparr>))"
    by (simp add: dispatch_matched handle_mdtext on_mdtext_run split: prod.splits sum.splits exn.splits)
qed

theorem raw_text_route_witness:
  "bind_to_environ sample \<lparr>req_path = ''/t/readme.md'', req_args = []\<rparr> = Inr () \<and>
   url_match sample \<lparr>req_path = ''/t/readme.md'', req_args = []\<rparr>
     = Inr (''mdtext'', Some ''readme.md'') \<and>
   dispatch sample \<lparr>req_path = ''/t/readme.md'', req_args = []\<rparr> \<lparr>provider = 0, calls = []\<rparr>
     = (Inr (Resp \<lparr>status = 200, mimetype = Some ''text/plain'', body = ''# Readme'',
                  headers = []\<rparr>),
        \<lparr>provider = 0, calls = [BindToEnviron, Match, GetContent ''readme.md'' (Some True)]\<rparr>) \<and>
   fst (handle sample ''mdtext'' \<lparr>req_path = ''/t/readme.md'', req_args = []\<rparr> (Some ''readme.md'')
          \<lparr>provider = 0, calls = []\<rparr>)
     = Inr (Resp \<lparr>status = 200, mimetype = Some ''text/plain'', body = ''# Readme'',
                  headers = []\<rparr>) \<and>
   url_match sample \<lparr>req_path = ''/t/docs'', req_args = []\<rparr> = Inr (''mdtext'', Some ''docs'') \<and>
   fst (dispatch sample \<lparr>req_path = ''/t/docs'', req_args = []\<rparr> \<lparr>provider = 0, calls = []\<rparr>)
     = Inr (Resp \<lparr>status = 404, mimetype = Some ''text/plain'', body = ''Not found'',
                  headers = []\<rparr>)"
  using raw_text_route [of sample "\<lparr>req_path = ''/t/readme.md'', req_args = []\<rparr>" "''readme.md''"
          "\<lparr>provider = 0, calls = []\<rparr>"]
        raw_text_route [of sample "\<lparr>req_path = ''/t/docs'', req_args = []\<rparr>" "''docs''"
          "\<lparr>provider = 0, calls = []\<rparr>"]
  by (simp add: sample_def sample_match_def)

section \<open>The viewer and plain routes\<close>

lemma handle_view: "handle c ''view'' req (Some f) = handle_common c f ''viewer.html'' ''v''"
  by (simp add: handle_def getattr_on_def apply_handler_def on_view_def)

lemma handle_mdplain: "handle c ''mdplain'' req (Some f) = handle_common c f ''plain.html'' ''m''"
  by (simp add: handle_def getattr_on_def apply_handler_def on_mdplain_def)

lemma handle_common_first:
  "adds (\<lambda>l. \<exists>rest. l = IsFile f # rest) (handle_common c f template prefix)"
  unfolding handle_common_def
proof (rule adds_and_then [where P = "\<lambda>l. l = [IsFile f]" and Q = "\<lambda>l. True"])
  show "adds (\<lambda>l. l = [IsFile f]) (state_call (IsFile f) (is_file c f))"
    by (rule adds_state_call) simp
next
  fix b
  show "adds (\<lambda>l. True) (if b then render_file c template f else render_tree c template prefix f)"
    using quiet_render_file [of c template f] quiet_render_tree [of c template prefix f]
    by (auto intro: adds_weaken)
qed simp_all

lemma handle_common_file:
  assumes "is_file c f (provider w) = (Inr True, p1)"
    and "get_content c f None p1 = (Inr html, p2)"
    and "get_template c template = Inr ()"
    and "render c template (Content html) = Inr page"
  shows "handle_common c f template prefix w =
     (Inr (Resp \<lparr>status = 200, mimetype = Some ''text/html'', body = page, headers = []\<rparr>),
      \<lparr>provider = p2,
         calls = calls w @ [IsFile f, GetContent f None, GetTemplate template,
                            Render template (Content html)]\<rparr>)"
  using assms
  by (simp add: handle_common_def render_file_def render_markdown_def and_then_def
        state_call_def pure_call_def return_def)

lemma handle_common_absent:
  assumes "is_file c f (provider w) = (Inr False, p1)"
    and "get_tree c p1 = (Inr t, p2)"
    and "get_children t f = None"
  shows "handle_common c f template prefix w =
     (Inr (Resp \<lparr>status = 404, mimetype = Some ''text/plain'', body = ''Not found'',
                  headers = []\<rparr>),
      \<lparr>provider = p2, calls = calls w @ [IsFile f, GetTree]\<rparr>)"
  using assms
  by (simp add: handle_common_def render_tree_def and_then_def state_call_def return_def)

lemma handle_common_listing:
  assumes "is_file c f (provider w) = (Inr False, p1)"
    and "get_tree c p1 = (Inr t, p2)"
    and "get_children t f = Some kids"
    and "get_template c ''tree.md'' = Inr ()"
    and "render c ''tree.md'' (Listing kids prefix (''/'' @ f)) = Inr md"
    and "parse c md = Inr parsed"
    and "get_template c template = Inr ()"
    and "render c template (Content parsed) = Inr page"
  shows "handle_common c f template prefix w =
     (Inr (Resp \<lparr>status = 200, mimetype = Some ''text/html'', body = page, headers = []\<rparr>),
      \<lparr>provider = p2,
         calls = calls w @ [IsFile f, GetTree, GetTemplate ''tree.md'',
                            Render ''tree.md'' (Listing kids prefix (''/'' @ f)), Parse md,
                            GetTemplate template, Render template (Content parsed)]\<rparr>)"
  using assms
  by (simp add: handle_common_def render_tree_def render_markdown_def and_then_def
        state_call_def pure_call_def return_def)

lemma url_map_view: "map_of url_map ''/v/<path:filename>'' = Some ''view''"
  by (simp add: url_map_def)

lemma url_map_mdplain: "map_of url_map ''/m/<path:filename>'' = Some ''mdplain''"
  by (simp add: url_map_def)

text \<open>
  C3. For the namespace \<open>v\<close> with the template \<open>viewer.html\<close> and the namespace \<open>m\<close> with
  the template \<open>plain.html\<close>: the handler of \<open>/<namespace>/<path>\<close> calls \<open>is_file(path)\<close>
  first. If the answer is true it gets the content of the file and renders it with the
  template of the namespace. If the answer is false it reads the tree and resolves the path:
  when resolution fails it returns the not-found response and renders nothing, otherwise it
  renders the listing of the children found, parses it and renders the result with the
  template of the namespace.
\<close>

theorem file_or_listing:
  assumes "(ns, ep, template) = (''v'', ''view'', ''viewer.html'') \<or>
           (ns, ep, template) = (''m'', ''mdplain'', ''plain.html'')"
  shows
   "map_of url_map (''/'' @ ns @ ''/<path:filename>'') = Some ep \<and>
    (\<exists>rest. new_calls (handle c ep req (Some f)) w = IsFile f # rest) \<and>
    (is_file c f (provider w) = (Inr True, p1) \<and>
     get_content c f None p1 = (Inr html, p2) \<and>
     get_template c template = Inr () \<and>
     render c template (Content html) = Inr page \<longrightarrow>
       handle c ep req (Some f) w =
         (Inr (Resp \<lparr>status = 200, mimetype = Some ''text/html'', body = page, headers = []\<rparr>),
          \<lparr>provider = p2,
             calls = calls w @ [IsFile f, GetContent f None, GetTemplate template,
                                Render template (Content html)]\<rparr>)) \<and>
    (is_file c f (provider w) = (Inr False, p1) \<and>
     get_tree c p1 = (Inr t, p2) \<and>
     get_children t f = None \<longrightarrow>
       handle c ep req (Some f) w =
         (Inr (Resp \<lparr>status = 404, mimetype = Some ''text/plain'', body = ''Not found'',
                      headers = []\<rparr>),
          \<lparr>provider = p2, calls = calls w @ [IsFile f, GetTree]\<rparr>)) \<and>
    (is_file c f (provider w) = (Inr False, p1) \<and>
     get_tree c p1 = (Inr t, p2) \<and>
     get_children t f = Some kids \<and>
     get_template c ''tree.md'' = Inr () \<and>
     render c ''tree.md'' (Listing kids ns (''/'' @ f)) = Inr md \<and>
     parse c md = Inr parsed \<and>
     get_template c template = Inr () \<and>
     render c template (Content parsed) = Inr page \<longrightarrow>
       handle c ep req (Some f) w =
         (Inr (Resp \<lparr>status = 200, mimetype = Some ''text/html'', body = page, headers = []\<rparr>),
          \<lparr>provider = p2,
             calls = calls w @ [IsFile f, GetTree, GetTemplate ''tree.md'',
                                Render ''tree.md'' (Listing kids ns (''/'' @ f)), Parse md,
                                GetTemplate template, Render template (Content parsed)]\<rparr>))"
proof -
  from assms have h: "handle c ep req (Some f) = handle_common c f template ns"
    by (auto simp: handle_view handle_mdplain)
  from assms have 1: "map_of url_map (''/'' @ ns @ ''/<path:filename>'') = Some ep"
    by (auto simp: url_map_view url_map_mdplain)
  have 2: "\<exists>rest. new_calls (handle c ep req (Some f)) w = IsFile f # rest"
    unfolding h
    using adds_new_calls [OF handle_common_first, where f1 = f and c1 = c and template1 = template
            and prefix1 = ns and w = w]
    by simp
  show ?thesis
    unfolding h [symmetric]
    apply (intro conjI impI)
        apply (rule 1)
       apply (rule 2)
      apply (simp only: h, rule handle_common_file; blast)
     apply (simp only: h, rule handle_common_absent; blast)
    apply (simp only: h, rule handle_common_listing; blast)
    done
qed

theorem file_or_listing_witness:
  "is_file sample ''readme.md'' (0::nat) = (Inr True, 0) \<and>
   get_content sample ''readme.md'' None (0::nat) = (Inr ''<h1>Readme</h1>'', 0) \<and>
   is_file sample ''missing'' (0::nat) = (Inr False, 0) \<and>
   is_file sample ''docs'' (0::nat) = (Inr False, 0) \<and>
   get_tree sample (0::nat) = (Inr sample_tree, 0) \<and>
   get_children sample_tree ''missing'' = None \<and>
   get_children sample_tree ''docs'' =
     Some [Node ''file'' ''a.md'' None, Node ''file'' ''b.md'' None] \<and>
   handle sample ''view'' \<lparr>req_path = ''/v/readme.md'', req_args = []\<rparr> (Some ''readme.md'')
       \<lparr>provider = 0, calls = []\<rparr>
     = (Inr (Resp \<lparr>status = 200, mimetype = Some ''text/html'',
                   body = ''viewer.html:<h1>Readme</h1>'', headers = []\<rparr>),
        \<lparr>provider = 0,
           calls = [IsFile ''readme.md'', GetContent ''readme.md'' None, GetTemplate ''viewer.html'',
                    Render ''viewer.html'' (Content ''<h1>Readme</h1>'')]\<rparr>) \<and>
   handle sample ''mdplain'' \<lparr>req_path = ''/m/missing'', req_args = []\<rparr> (Some ''missing'')
       \<lparr>provider = 0, calls = []\<rparr>
     = (Inr (Resp \<lparr>status = 404, mimetype = Some ''text/plain'', body = ''Not found'',
                   headers = []\<rparr>),
        \<lparr>provider = 0, calls = [IsFile ''missing'', GetTree]\<rparr>) \<and>
   handle sample ''mdplain'' \<lparr>req_path = ''/m/docs'', req_args = []\<rparr> (Some ''docs'')
       \<lparr>provider = 0, calls = []\<rparr>
     = (Inr (Resp \<lparr>status = 200, mimetype = Some ''text/html'',
                   body = ''plain.html:m/docs a.md; m/docs b.md; '', headers = []\<rparr>),
        \<lparr>provider = 0,
           calls = [IsFile ''docs'', GetTree, GetTemplate ''tree.md'',
                    Render ''tree.md''
                      (Listing [Node ''file'' ''a.md'' None, Node ''file'' ''b.md'' None] ''m'' ''/docs''),
                    Parse ''m/docs a.md; m/docs b.md; '',
                    GetTemplate ''plain.html'',
                    Render ''plain.html'' (Content ''m/docs a.md; m/docs b.md; '')]\<rparr>)"
  using file_or_listing [where ns = "''v''" and ep = "''view''" and template = "''viewer.html''"
          and c = sample and f = "''readme.md''" and w = "\<lparr>provider = 0, calls = []\<rparr>"
          and ?p1.0 = 0 and html = "''<h1>Readme</h1>''" and ?p2.0 = 0
          and page = "''viewer.html:<h1>Readme</h1>''"
          and req = "\<lparr>req_path = ''/v/readme.md'', req_args = []\<rparr>"]
        file_or_listing [where ns = "''m''" and ep = "''mdplain''" and template = "''plain.html''"
          and c = sample and f = "''missing''" and w = "\<lparr>provider = 0, calls = []\<rparr>"
          and ?p1.0 = 0 and ?p2.0 = 0 and t = sample_tree
          and req = "\<lparr>req_path = ''/m/missing'', req_args = []\<rparr>"]
        file_or_listing [where ns = "''m''" and ep = "''mdplain''" and template = "''plain.html''"
          and c = sample and f = "''docs''" and w = "\<lparr>provider = 0, calls = []\<rparr>"
          and ?p1.0 = 0 and ?p2.0 = 0 and t = sample_tree
          and kids = "[Node ''file'' ''a.md'' None, Node ''file'' ''b.md'' None]"
          and md = "''m/docs a.md; m/docs b.md; ''" and parsed = "''m/docs a.md; m/docs b.md; ''"
          and page = "''plain.html:m/docs a.md; m/docs b.md; ''"
          and req = "\<lparr>req_path = ''/m/docs'', req_args = []\<rparr>"]
  by (simp add: sample_def get_children_def parts_of_def sample_tree_def get_children_key_def)

end
